theory Spec2Isabelle
  imports Complex_Main "HOL-Library.Word"
begin

unbundle bit_operations_syntax

section \<open>Support code of the EPT reader (io/private/EptSupport.hpp)\<close>

text \<open>
  A shallow embedding of \<^verbatim>\<open>EptSupport.hpp\<close>: the octree key with its parsing, printing
  and bisection, the dataset metadata (\<^verbatim>\<open>getType\<close>, \<^verbatim>\<open>toBox3d\<close>, \<^verbatim>\<open>EptInfo\<close>), the
  order-preserving point layout, the shallow point table over a raw buffer, and the part
  of the worker pool that the calling thread runs.

  Conventions.
  \<^item> \<^verbatim>\<open>uint64_t\<close> and \<^verbatim>\<open>std::size_t\<close> are \<open>64 word\<close>: arithmetic wraps modulo \<open>2 ^ 64\<close>.
  \<^item> \<^verbatim>\<open>double\<close> is a type parameter \<open>'r\<close>. Where the code computes with doubles the
    model uses the bare operations \<open>+\<close>, \<open>-\<close>, \<open>/\<close> and \<open>1\<close> of syntactic type classes,
    none of which carries an algebraic law, so that a general statement holds for any
    arithmetic, that of IEEE binary64 included.
  \<^item> Every \<^verbatim>\<open>throw\<close> is a value \<open>Inl e\<close> of a sum type; undefined behaviour of C++
    (division by zero, access outside a buffer) is a value of its own.
\<close>

subsection \<open>Exceptions\<close>

text \<open>
  The file throws one class, \<^verbatim>\<open>ept_error\<close>, told apart by its message only. The model has
  one constructor for each \<^verbatim>\<open>throw\<close> of the file:
  \<^item> \<open>InvalidBounds\<close>: \<^verbatim>\<open>"Invalid bounds specification: " + b.toStyledString()\<close>
  \<^item> \<open>InvalidKey s\<close>: \<^verbatim>\<open>"Invalid EPT KEY: " + s\<close>
  \<^item> \<open>InvalidKeyIndex\<close>: \<^verbatim>\<open>"Invalid Key[] index"\<close>
  \<^item> \<open>InvalidIdAtIndex\<close>: \<^verbatim>\<open>"Invalid Key::idAt index"\<close>
  \<^item> \<open>UnrecognizedDataType dt\<close>: \<^verbatim>\<open>"Unrecognized EPT dataType: " + dt\<close>
  \<^item> \<open>CannotAddPoints\<close>: \<^verbatim>\<open>"Cannot add points to ShallowPointTable"\<close>
  \<^item> \<open>StoppedPool\<close>: \<^verbatim>\<open>"Attempted to add a task to a stopped Pool"\<close>
\<close>

datatype ept_error =
    InvalidBounds
  | InvalidKey string
  | InvalidKeyIndex
  | InvalidIdAtIndex
  | UnrecognizedDataType string
  | CannotAddPoints
  | StoppedPool

text \<open>
  Everything a call can end with other than a result: an \<^verbatim>\<open>ept_error\<close>, an exception of
  the C++ standard library (\<^verbatim>\<open>std::stoull\<close>), a \<^verbatim>\<open>Json::LogicError\<close> of the JSON library, or
  undefined behaviour.
\<close>

datatype exn =
    EptError ept_error
  | StdInvalidArgument
  | StdOutOfRange
  | JsonLogicError
  | UndefinedBehaviour

type_synonym size_t = "64 word"
type_synonym uint64_t = "64 word"

definition bindE :: "exn + 'a \<Rightarrow> ('a \<Rightarrow> exn + 'b) \<Rightarrow> exn + 'b" where
  "bindE m f = (case m of Inl e \<Rightarrow> Inl e | Inr v \<Rightarrow> f v)"

section \<open>What the file builds on\<close>

subsection \<open>Characters, numerals and splitting\<close>

text \<open>
  The character classes of the C locale that \<^verbatim>\<open>strtoull\<close> uses: white space is the space
  and the characters \<^verbatim>\<open>\t \n \v \f \r\<close> (codes 9 to 13); a digit is one of \<^verbatim>\<open>0\<close> to \<^verbatim>\<open>9\<close>
  (codes 48 to 57).
\<close>

definition isspace :: "char \<Rightarrow> bool" where
  "isspace c = ((of_char c :: nat) = 32 \<or> (9 \<le> (of_char c :: nat) \<and> (of_char c :: nat) \<le> 13))"

definition isdigit :: "char \<Rightarrow> bool" where
  "isdigit c = (48 \<le> (of_char c :: nat) \<and> (of_char c :: nat) \<le> 57)"

definition digit_value :: "char \<Rightarrow> nat" where
  "digit_value c = of_char c - 48"

definition digits_value :: "string \<Rightarrow> nat" where
  "digits_value ds = foldl (\<lambda>acc c. acc * 10 + digit_value c) 0 ds"

text \<open>
  \<^verbatim>\<open>std::stoull(str)\<close> of the C++ standard library, with its defaults (no position
  returned, base 10): the conversion of \<^verbatim>\<open>strtoull\<close>. Leading white space is skipped, one
  sign is accepted, then the longest run of digits is read and whatever follows is
  ignored. No digit there: \<^verbatim>\<open>std::invalid_argument\<close>. A value above \<open>2 ^ 64 - 1\<close>:
  \<^verbatim>\<open>std::out_of_range\<close>. After a minus sign the value is negated in \<^verbatim>\<open>unsigned long long\<close>.
\<close>

definition stoull :: "string \<Rightarrow> exn + uint64_t" where
  "stoull str =
     (let s1 = dropWhile isspace str;
          neg = (s1 \<noteq> [] \<and> hd s1 = CHR ''-'');
          s2 = (if s1 \<noteq> [] \<and> (hd s1 = CHR ''+'' \<or> hd s1 = CHR ''-'') then tl s1 else s1);
          ds = takeWhile isdigit s2
      in if ds = [] then Inl StdInvalidArgument
         else if 2 ^ 64 \<le> digits_value ds then Inl StdOutOfRange
         else Inr (if neg then - of_nat (digits_value ds) else of_nat (digits_value ds)))"

text \<open>
  \<^verbatim>\<open>std::to_string\<close> of an \<^verbatim>\<open>unsigned long long\<close>: the decimal digits, most significant
  first, without sign or leading zero.
\<close>

definition digit_char :: "nat \<Rightarrow> char" where
  "digit_char n = char_of (48 + n)"

fun digits :: "nat \<Rightarrow> string" where
  "digits n = (if n < 10 then [digit_char n] else digits (n div 10) @ [digit_char (n mod 10)])"

declare digits.simps [simp del]

definition to_string :: "uint64_t \<Rightarrow> string" where
  "to_string v = digits (unat v)"

text \<open>
  Modelled from the spec: \<^verbatim>\<open>Utils::split\<close> is declared in \<^verbatim>\<open>pdal/util/Utils.hpp\<close>, outside
  this file. It splits the string at every occurrence of the delimiter into the tokens
  between them, in order (an empty token where two delimiters meet or the string begins
  or ends with one); the empty string has no token. The loop takes the characters up to
  the next delimiter and goes on after it.
\<close>

function Utils_split_loop :: "string \<Rightarrow> char \<Rightarrow> string list" where
  "Utils_split_loop it c =
     (let token = takeWhile (\<lambda>x. x \<noteq> c) it;
          nextIt = dropWhile (\<lambda>x. x \<noteq> c) it
      in if nextIt = [] then [token] else token # Utils_split_loop (tl nextIt) c)"
  by pat_completeness auto
termination
proof (relation "measure (\<lambda>(it, c). length it)")
  show "wf (measure (\<lambda>(it, c :: char). length it))"
    by simp
next
  fix it :: string and c :: char and token nextIt :: string
  assume "nextIt = dropWhile (\<lambda>x. x \<noteq> c) it" and "nextIt \<noteq> []"
  then have "length (tl nextIt) < length nextIt" and "length nextIt \<le> length it"
    by (simp_all add: length_dropWhile_le)
  then show "((tl nextIt, c), (it, c)) \<in> measure (\<lambda>(it, c). length it)"
    by simp
qed

declare Utils_split_loop.simps [simp del]

definition Utils_split :: "string \<Rightarrow> char \<Rightarrow> string list" where
  "Utils_split s c = (if s = [] then [] else Utils_split_loop s c)"

subsection \<open>JSON values\<close>

text \<open>
  Modelled from the spec: \<^verbatim>\<open>Json::Value\<close> belongs to the JSON library (\<^verbatim>\<open>json/json.h\<close>), an
  external collaborator outside this file. The model has it as far as the file uses it:
  the eight kinds of value of the library and its \<^verbatim>\<open>const\<close> accessors, which never change
  the value they read. The members of an object are a list of pairs with distinct keys.
  An accessor applied to a kind it does not accept fails with \<^verbatim>\<open>Json::LogicError\<close>.
\<close>

datatype 'r Json_Value =
    nullValue
  | intValue int
  | uintValue uint64_t
  | realValue 'r
  | stringValue string
  | booleanValue bool
  | arrayValue "'r Json_Value list"
  | objectValue "(string \<times> 'r Json_Value) list"

text \<open>
  The conversions between \<^verbatim>\<open>double\<close> and the other kinds are parameters: the \<^verbatim>\<open>double\<close>
  nearest to an integer, the \<^verbatim>\<open>UInt64\<close> a \<^verbatim>\<open>double\<close> truncates to (none when it is out of
  range), and the text the library prints for a \<^verbatim>\<open>double\<close>.
\<close>

record 'r double_ops =
  double_of_int :: "int \<Rightarrow> 'r"
  double_to_UInt64 :: "'r \<Rightarrow> uint64_t option"
  double_to_string :: "'r \<Rightarrow> string"

text \<open>\<^verbatim>\<open>Value::find\<close>: the member of that name, of an object or of null.\<close>

fun Json_find :: "'r Json_Value \<Rightarrow> string \<Rightarrow> exn + 'r Json_Value option" where
  "Json_find nullValue key = Inr None"
| "Json_find (objectValue ms) key = Inr (map_of ms key)"
| "Json_find v key = Inl JsonLogicError"

text \<open>\<^verbatim>\<open>operator[](const char*) const\<close>: the member, or null when there is none.\<close>

definition Json_member :: "'r Json_Value \<Rightarrow> string \<Rightarrow> exn + 'r Json_Value" where
  "Json_member v key =
     bindE (Json_find v key) (\<lambda>found. Inr (case found of None \<Rightarrow> nullValue | Some m \<Rightarrow> m))"

definition isMember :: "'r Json_Value \<Rightarrow> string \<Rightarrow> exn + bool" where
  "isMember v key = bindE (Json_find v key) (\<lambda>found. Inr (found \<noteq> None))"

text \<open>\<^verbatim>\<open>operator[](int) const\<close> with an index that is not negative.\<close>

fun Json_at :: "'r Json_Value \<Rightarrow> nat \<Rightarrow> exn + 'r Json_Value" where
  "Json_at nullValue i = Inr nullValue"
| "Json_at (arrayValue xs) i = Inr (if i < length xs then xs ! i else nullValue)"
| "Json_at v i = Inl JsonLogicError"

fun isArray :: "'r Json_Value \<Rightarrow> bool" where
  "isArray (arrayValue xs) = True"
| "isArray v = False"

fun Json_size :: "'r Json_Value \<Rightarrow> nat" where
  "Json_size (arrayValue xs) = length xs"
| "Json_size (objectValue ms) = length ms"
| "Json_size v = 0"

fun asDouble :: "'r double_ops \<Rightarrow> 'r Json_Value \<Rightarrow> exn + 'r" where
  "asDouble ops (intValue i) = Inr (double_of_int ops i)"
| "asDouble ops (uintValue u) = Inr (double_of_int ops (uint u))"
| "asDouble ops (realValue r) = Inr r"
| "asDouble ops nullValue = Inr (double_of_int ops 0)"
| "asDouble ops (booleanValue b) = Inr (double_of_int ops (if b then 1 else 0))"
| "asDouble ops v = Inl JsonLogicError"

fun asUInt64 :: "'r double_ops \<Rightarrow> 'r Json_Value \<Rightarrow> exn + uint64_t" where
  "asUInt64 ops (intValue i) = (if 0 \<le> i then Inr (word_of_int i) else Inl JsonLogicError)"
| "asUInt64 ops (uintValue u) = Inr u"
| "asUInt64 ops (realValue r) =
     (case double_to_UInt64 ops r of None \<Rightarrow> Inl JsonLogicError | Some u \<Rightarrow> Inr u)"
| "asUInt64 ops nullValue = Inr 0"
| "asUInt64 ops (booleanValue b) = Inr (if b then 1 else 0)"
| "asUInt64 ops v = Inl JsonLogicError"

fun asString :: "'r double_ops \<Rightarrow> 'r Json_Value \<Rightarrow> exn + string" where
  "asString ops nullValue = Inr []"
| "asString ops (stringValue s) = Inr s"
| "asString ops (booleanValue b) = Inr (if b then ''true'' else ''false'')"
| "asString ops (intValue i) =
     Inr (if i < 0 then CHR ''-'' # digits (nat (- i)) else digits (nat i))"
| "asString ops (uintValue u) = Inr (digits (unat u))"
| "asString ops (realValue r) = Inr (double_to_string ops r)"
| "asString ops v = Inl JsonLogicError"

subsection \<open>BOX3D\<close>

text \<open>
  Modelled from the spec: \<^verbatim>\<open>BOX3D\<close> is declared in \<^verbatim>\<open>pdal/util/Bounds.hpp\<close>, outside this
  file. The model has it as far as the file uses it: an axis-aligned box of six public
  coordinates, and a constructor taking them in the order
  \<open>minx, miny, minz, maxx, maxy, maxz\<close> of the bounds array.
\<close>

record 'r BOX3D =
  minx :: 'r
  miny :: 'r
  minz :: 'r
  maxx :: 'r
  maxy :: 'r
  maxz :: 'r

definition BOX3D_ctor :: "'r \<Rightarrow> 'r \<Rightarrow> 'r \<Rightarrow> 'r \<Rightarrow> 'r \<Rightarrow> 'r \<Rightarrow> 'r BOX3D" where
  "BOX3D_ctor x0 y0 z0 x1 y1 z1 =
     \<lparr>minx = x0, miny = y0, minz = z0, maxx = x1, maxy = y1, maxz = z1\<rparr>"

subsection \<open>Dimensions and the base layout\<close>

text \<open>
  Modelled from the spec: \<^verbatim>\<open>Dimension::Type\<close> and \<^verbatim>\<open>Dimension::size\<close> are declared in
  \<^verbatim>\<open>pdal/DimUtil.hpp\<close>, outside this file. The types are the ones
  \<^verbatim>\<open>getType\<close> returns, and the size of each is the byte count of the schema entry that
  yields it (1, 2, 4 or 8 for integers, 4 or 8 for floats, 0 for \<^verbatim>\<open>None\<close>).
\<close>

datatype Type =
    Type_None
  | Type_Signed8 | Type_Signed16 | Type_Signed32 | Type_Signed64
  | Type_Unsigned8 | Type_Unsigned16 | Type_Unsigned32 | Type_Unsigned64
  | Type_Float | Type_Double

fun Dimension_size :: "Type \<Rightarrow> size_t" where
  "Dimension_size Type_None = 0"
| "Dimension_size Type_Signed8 = 1"
| "Dimension_size Type_Signed16 = 2"
| "Dimension_size Type_Signed32 = 4"
| "Dimension_size Type_Signed64 = 8"
| "Dimension_size Type_Unsigned8 = 1"
| "Dimension_size Type_Unsigned16 = 2"
| "Dimension_size Type_Unsigned32 = 4"
| "Dimension_size Type_Unsigned64 = 8"
| "Dimension_size Type_Float = 4"
| "Dimension_size Type_Double = 8"

text \<open>
  Modelled from the spec: \<^verbatim>\<open>Dimension::Id\<close>, \<^verbatim>\<open>Dimension::Detail\<close> and the members of the
  base class \<^verbatim>\<open>PointLayout\<close> are declared in headers outside this file. An id is its
  native number; a detail is an id, a type and a byte offset (kept at the width of
  \<^verbatim>\<open>m_pointSize\<close>, whose value it receives), with the size of its type as its size; a
  layout has the members \<^verbatim>\<open>update\<close> reads and writes: the details indexed by id, the ids
  in order of registration, the names of the property fields, the record size and the
  flag that \<^verbatim>\<open>finalize()\<close> sets. A new layout has no dimension, no property name and a
  record size of 0; \<^verbatim>\<open>pointSize()\<close> and \<^verbatim>\<open>dimDetail(id)\<close> read the record size and the
  detail of an id.
\<close>

type_synonym Id = nat

record Detail =
  d_id :: Id
  d_type :: Type
  d_offset :: size_t

definition Detail_size :: "Detail \<Rightarrow> size_t" where
  "Detail_size d = Dimension_size (d_type d)"

record PointLayout =
  m_detail :: "Id \<Rightarrow> Detail"
  m_used :: "Id list"
  m_propIds :: "string \<rightharpoonup> Id"
  m_pointSize :: size_t
  m_finalized :: bool

definition PointLayout_empty :: PointLayout where
  "PointLayout_empty =
     \<lparr>m_detail = (\<lambda>i. \<lparr>d_id = 0, d_type = Type_None, d_offset = 0\<rparr>),
      m_used = [],
      m_propIds = Map.empty,
      m_pointSize = 0,
      m_finalized = False\<rparr>"


definition PointLayout_pointSize :: "PointLayout \<Rightarrow> size_t" where
  "PointLayout_pointSize l = m_pointSize l"

definition PointLayout_dimDetail :: "PointLayout \<Rightarrow> Id \<Rightarrow> Detail" where
  "PointLayout_dimDetail l i = m_detail l i"

section \<open>The file\<close>

subsection \<open>getType and toBox3d\<close>

text \<open>\<^verbatim>\<open>getType\<close>; its parameter \<^verbatim>\<open>dim\<close> is \<open>dimension\<close> here.\<close>

definition getType :: "'r double_ops \<Rightarrow> 'r Json_Value \<Rightarrow> exn + Type" where
  "getType ops dimension =
     bindE (isMember dimension ''scale'') (\<lambda>scale.
       if scale then Inr Type_Double
       else
         bindE (bindE (Json_member dimension ''type'') (asString ops)) (\<lambda>type.
         bindE (bindE (Json_member dimension ''size'') (asUInt64 ops)) (\<lambda>size.
           Inr (if type = ''signed'' then
                  (if size = 1 then Type_Signed8
                   else if size = 2 then Type_Signed16
                   else if size = 4 then Type_Signed32
                   else if size = 8 then Type_Signed64
                   else Type_None)
                else if type = ''unsigned'' then
                  (if size = 1 then Type_Unsigned8
                   else if size = 2 then Type_Unsigned16
                   else if size = 4 then Type_Unsigned32
                   else if size = 8 then Type_Unsigned64
                   else Type_None)
                else if type = ''float'' then
                  (if size = 4 then Type_Float
                   else if size = 8 then Type_Double
                   else Type_None)
                else Type_None))))"

definition toBox3d :: "'r double_ops \<Rightarrow> 'r Json_Value \<Rightarrow> exn + 'r BOX3D" where
  "toBox3d ops b =
     (if \<not> isArray b \<or> Json_size b \<noteq> 6 then Inl (EptError InvalidBounds)
      else
        bindE (bindE (Json_at b 0) (asDouble ops)) (\<lambda>x0.
        bindE (bindE (Json_at b 1) (asDouble ops)) (\<lambda>y0.
        bindE (bindE (Json_at b 2) (asDouble ops)) (\<lambda>z0.
        bindE (bindE (Json_at b 3) (asDouble ops)) (\<lambda>x1.
        bindE (bindE (Json_at b 4) (asDouble ops)) (\<lambda>y1.
        bindE (bindE (Json_at b 5) (asDouble ops)) (\<lambda>z1.
          Inr (BOX3D_ctor x0 y0 z0 x1 y1 z1))))))))"

subsection \<open>Key\<close>

text \<open>The members \<^verbatim>\<open>b\<close>, \<^verbatim>\<open>d\<close>, \<^verbatim>\<open>x\<close>, \<^verbatim>\<open>y\<close>, \<^verbatim>\<open>z\<close> of \<^verbatim>\<open>Key\<close>.\<close>

record 'r Key =
  Key_b :: "'r BOX3D"
  Key_d :: uint64_t
  Key_x :: uint64_t
  Key_y :: uint64_t
  Key_z :: uint64_t

text \<open>
  \<^verbatim>\<open>Key::operator[]\<close> returns a reference; the model has the read and the write through it.
\<close>

definition Key_at :: "'r Key \<Rightarrow> uint64_t \<Rightarrow> exn + 'r" where
  "Key_at key i =
     (if i = 0 then Inr (minx (Key_b key))
      else if i = 1 then Inr (miny (Key_b key))
      else if i = 2 then Inr (minz (Key_b key))
      else if i = 3 then Inr (maxx (Key_b key))
      else if i = 4 then Inr (maxy (Key_b key))
      else if i = 5 then Inr (maxz (Key_b key))
      else Inl (EptError InvalidKeyIndex))"

definition Key_at_put :: "'r Key \<Rightarrow> uint64_t \<Rightarrow> 'r \<Rightarrow> exn + 'r Key" where
  "Key_at_put key i v =
     (if i = 0 then Inr (key\<lparr>Key_b := (Key_b key)\<lparr>minx := v\<rparr>\<rparr>)
      else if i = 1 then Inr (key\<lparr>Key_b := (Key_b key)\<lparr>miny := v\<rparr>\<rparr>)
      else if i = 2 then Inr (key\<lparr>Key_b := (Key_b key)\<lparr>minz := v\<rparr>\<rparr>)
      else if i = 3 then Inr (key\<lparr>Key_b := (Key_b key)\<lparr>maxx := v\<rparr>\<rparr>)
      else if i = 4 then Inr (key\<lparr>Key_b := (Key_b key)\<lparr>maxy := v\<rparr>\<rparr>)
      else if i = 5 then Inr (key\<lparr>Key_b := (Key_b key)\<lparr>maxz := v\<rparr>\<rparr>)
      else Inl (EptError InvalidKeyIndex))"

text \<open>\<^verbatim>\<open>Key::idAt\<close>, again a reference: the read and the write.\<close>

definition Key_idAt :: "'r Key \<Rightarrow> uint64_t \<Rightarrow> exn + uint64_t" where
  "Key_idAt key i =
     (if i = 0 then Inr (Key_x key)
      else if i = 1 then Inr (Key_y key)
      else if i = 2 then Inr (Key_z key)
      else Inl (EptError InvalidIdAtIndex))"

definition Key_idAt_put :: "'r Key \<Rightarrow> uint64_t \<Rightarrow> uint64_t \<Rightarrow> exn + 'r Key" where
  "Key_idAt_put key i v =
     (if i = 0 then Inr (key\<lparr>Key_x := v\<rparr>)
      else if i = 1 then Inr (key\<lparr>Key_y := v\<rparr>)
      else if i = 2 then Inr (key\<lparr>Key_z := v\<rparr>)
      else Inl (EptError InvalidIdAtIndex))"

text \<open>
  The lambda \<^verbatim>\<open>step\<close> of \<^verbatim>\<open>Key::bisect\<close>, which captures \<^verbatim>\<open>key\<close> by reference (here:
  takes and returns it) and \<^verbatim>\<open>direction\<close> by value. Its parameter is a \<^verbatim>\<open>uint8_t\<close>;
  \<^verbatim>\<open>i + 3\<close> is computed in \<^verbatim>\<open>int\<close> and converted to the \<^verbatim>\<open>uint64_t\<close> index. The constant
  \<^verbatim>\<open>2.0\<close> is written \<open>1 + 1\<close>, which is exact in binary floating point and needs no class
  of numerals.
\<close>

definition step :: "uint64_t \<Rightarrow> 'r::{plus,minus,inverse,one} Key \<Rightarrow> 8 word \<Rightarrow> exn + 'r Key" where
  "step direction key i =
     bindE (Key_idAt key (ucast i)) (\<lambda>c.
     bindE (Key_idAt_put key (ucast i) (c * 2)) (\<lambda>key.
     bindE (Key_at key (ucast i)) (\<lambda>lo.
     bindE (Key_at key (ucast i + 3)) (\<lambda>hi.
       let mid = lo + (hi - lo) / (1 + 1);
           positive = (direction AND push_bit (unat i) 1 \<noteq> 0)
       in if positive
          then bindE (Key_at_put key (ucast i) mid) (\<lambda>key.
               bindE (Key_idAt key (ucast i)) (\<lambda>c.
               Key_idAt_put key (ucast i) (c + 1)))
          else Key_at_put key (ucast i + 3) mid))))"

text \<open>The loop \<^verbatim>\<open>for (uint8_t i(0); i < 3; ++i) step(i);\<close> from the value \<open>i\<close> on.\<close>

function bisect_loop :: "uint64_t \<Rightarrow> 'r::{plus,minus,inverse,one} Key \<Rightarrow> 8 word \<Rightarrow> exn + 'r Key" where
  "bisect_loop direction key i =
     (if i < 3
      then (case step direction key i of
              Inl e \<Rightarrow> Inl e
            | Inr key' \<Rightarrow> bisect_loop direction key' (i + 1))
      else Inr key)"
  by pat_completeness auto
termination
proof (relation "measure (\<lambda>(direction, key, i). 3 - unat i)")
  show "wf (measure (\<lambda>(direction, key :: 'r Key, i :: 8 word). 3 - unat i))"
    by simp
next
  fix direction :: uint64_t and key key' :: "'r Key" and i :: "8 word"
  assume "i < 3"
  then have "unat i < 3"
    by (simp add: word_less_nat_alt)
  then have "unat (i + 1) = unat i + 1"
    by (simp add: unat_word_ariths)
  with \<open>unat i < 3\<close>
  show "((direction, key', i + 1), (direction, key, i))
          \<in> measure (\<lambda>(direction, key, i). 3 - unat i)"
    by simp
qed

declare bisect_loop.simps [simp del]

definition Key_bisect :: "'r::{plus,minus,inverse,one} Key \<Rightarrow> uint64_t \<Rightarrow> exn + 'r Key" where
  "Key_bisect this direction = bisect_loop direction (this\<lparr>Key_d := Key_d this + 1\<rparr>) 0"

text \<open>
  The constructor \<^verbatim>\<open>Key(std::string s)\<close>. The member \<^verbatim>\<open>b\<close> is default-constructed; the
  default constructor of \<^verbatim>\<open>BOX3D\<close> is outside this file, so the box it makes is the
  parameter \<open>b0\<close>.
\<close>

definition Key_ctor :: "'r BOX3D \<Rightarrow> string \<Rightarrow> exn + 'r Key" where
  "Key_ctor b0 s =
     (let tokens = Utils_split s CHR ''-'' in
      if length tokens \<noteq> 4 then Inl (EptError (InvalidKey s))
      else bindE (stoull (tokens ! 0)) (\<lambda>d.
           bindE (stoull (tokens ! 1)) (\<lambda>x.
           bindE (stoull (tokens ! 2)) (\<lambda>y.
           bindE (stoull (tokens ! 3)) (\<lambda>z.
             Inr \<lparr>Key_b = b0, Key_d = d, Key_x = x, Key_y = y, Key_z = z\<rparr>)))))"

definition Key_toString :: "'r Key \<Rightarrow> string" where
  "Key_toString this =
     to_string (Key_d this) @ [CHR ''-''] @ to_string (Key_x this) @ [CHR ''-''] @
     to_string (Key_y this) @ [CHR ''-''] @ to_string (Key_z this)"

subsection \<open>EptInfo\<close>

datatype DataType = Laszip | Binary

record 'r EptInfo =
  m_info :: "'r Json_Value"
  m_bounds :: "'r BOX3D"
  m_points :: uint64_t
  m_span :: uint64_t
  m_dataType :: DataType
  m_srs :: string

text \<open>
  The statements of the constructor that compute \<^verbatim>\<open>m_srs\<close>, from the value
  \<^verbatim>\<open>m_info["srs"]\<close> (which each of them reads anew, with the same result): the text of
  \<^verbatim>\<open>wkt\<close>; if that is empty, \<^verbatim>\<open>authority:horizontal\<close> when
  both members are there (the second test is not made when the first fails), and then,
  in the same block and whether or not the pair was there, \<^verbatim>\<open>+vertical\<close> appended when
  that member is there.
\<close>

definition resolve_srs :: "'r double_ops \<Rightarrow> 'r Json_Value \<Rightarrow> exn + string" where
  "resolve_srs ops srs =
     bindE (bindE (Json_member srs ''wkt'') (asString ops)) (\<lambda>m_srs.
       if m_srs = [] then
         bindE (isMember srs ''authority'') (\<lambda>hasAuthority.
         bindE (if hasAuthority then isMember srs ''horizontal'' else Inr False) (\<lambda>hasBoth.
         bindE (if hasBoth then
                  bindE (bindE (Json_member srs ''authority'') (asString ops)) (\<lambda>a.
                  bindE (bindE (Json_member srs ''horizontal'') (asString ops)) (\<lambda>h.
                    Inr (a @ '':'' @ h)))
                else Inr m_srs) (\<lambda>m_srs.
         bindE (isMember srs ''vertical'') (\<lambda>hasVertical.
           if hasVertical then
             bindE (bindE (Json_member srs ''vertical'') (asString ops)) (\<lambda>v.
               Inr (m_srs @ ''+'' @ v))
           else Inr m_srs))))
       else Inr m_srs)"

text \<open>The constructor \<^verbatim>\<open>EptInfo(Json::Value info)\<close>, statement by statement.\<close>

definition EptInfo_ctor :: "'r double_ops \<Rightarrow> 'r Json_Value \<Rightarrow> exn + 'r EptInfo" where
  "EptInfo_ctor ops info =
     bindE (bindE (Json_member info ''bounds'') (toBox3d ops)) (\<lambda>bounds.
     bindE (bindE (Json_member info ''points'') (asUInt64 ops)) (\<lambda>points.
     bindE (bindE (Json_member info ''span'') (asUInt64 ops)) (\<lambda>span.
     bindE (bindE (Json_member info ''srs'') (resolve_srs ops)) (\<lambda>srs.
     bindE (bindE (Json_member info ''dataType'') (asString ops)) (\<lambda>dt.
       if dt = ''laszip'' then
         Inr \<lparr>m_info = info, m_bounds = bounds, m_points = points, m_span = span,
              m_dataType = Laszip, m_srs = srs\<rparr>
       else if dt = ''binary'' then
         Inr \<lparr>m_info = info, m_bounds = bounds, m_points = points, m_span = span,
              m_dataType = Binary, m_srs = srs\<rparr>
       else Inl (EptError (UnrecognizedDataType dt)))))))"

definition schema :: "'r EptInfo \<Rightarrow> exn + 'r Json_Value" where
  "schema this = Json_member (m_info this) ''schema''"

subsection \<open>FixedPointLayout\<close>

text \<open>\<^verbatim>\<open>FixedPointLayout::contains\<close>: the loop over the id list.\<close>

fun contains :: "Id list \<Rightarrow> Id \<Rightarrow> bool" where
  "contains [] i = False"
| "contains (current # idList) i = (if current = i then True else contains idList i)"

text \<open>
  \<^verbatim>\<open>FixedPointLayout::update\<close>: the result and the layout after the call. The value
  \<^verbatim>\<open>m_propIds.count(name)\<close>, 0 or 1, is returned as a \<^verbatim>\<open>bool\<close>.
\<close>

definition update :: "PointLayout \<Rightarrow> Detail \<Rightarrow> string \<Rightarrow> bool \<times> PointLayout" where
  "update l dimDetail name =
     (if \<not> m_finalized l then
        (if \<not> contains (m_used l) (d_id dimDetail) then
           (let dimDetail = dimDetail\<lparr>d_offset := m_pointSize l\<rparr> in
            (True, l\<lparr>m_pointSize := m_pointSize l + Detail_size dimDetail,
                      m_used := m_used l @ [d_id dimDetail],
                      m_detail := (m_detail l)(d_id dimDetail := dimDetail)\<rparr>))
         else (False, l))
      else (m_propIds l name \<noteq> None, l))"

subsection \<open>ShallowPointTable\<close>

text \<open>
  The table holds the layout, the pointer \<^verbatim>\<open>m_data\<close> and the size \<^verbatim>\<open>m_size\<close> it was given.
  The memory \<^verbatim>\<open>m_data\<close> points to, owned by the caller, is the list of its bytes; a pointer
  into it is an index. Reading or writing outside that memory is undefined behaviour.
\<close>

record ShallowPointTable =
  layout :: PointLayout
  m_data :: "8 word list"
  m_size :: size_t

definition ShallowPointTable_ctor :: "PointLayout \<Rightarrow> 8 word list \<Rightarrow> size_t \<Rightarrow> ShallowPointTable" where
  "ShallowPointTable_ctor l data sz = \<lparr>layout = l, m_data = data, m_size = sz\<rparr>"

text \<open>\<^verbatim>\<open>numPoints\<close>: one unsigned division, undefined for a record size of 0; no other check.\<close>

definition numPoints :: "ShallowPointTable \<Rightarrow> exn + size_t" where
  "numPoints t =
     (if PointLayout_pointSize (layout t) = 0 then Inl UndefinedBehaviour
      else Inr (m_size t div PointLayout_pointSize (layout t)))"

definition addPoint :: "ShallowPointTable \<Rightarrow> exn + uint64_t" where
  "addPoint t = Inl (EptError CannotAddPoints)"

definition getPoint :: "ShallowPointTable \<Rightarrow> uint64_t \<Rightarrow> nat" where
  "getPoint t i = unat (i * PointLayout_pointSize (layout t))"

definition getDimension :: "ShallowPointTable \<Rightarrow> Detail \<Rightarrow> uint64_t \<Rightarrow> nat" where
  "getDimension t d idx = getPoint t idx + unat (d_offset d)"

text \<open>
  \<^verbatim>\<open>setFieldInternal\<close>: \<^verbatim>\<open>std::copy\<close> of \<^verbatim>\<open>d->size()\<close> bytes from \<^verbatim>\<open>value\<close> (the bytes found
  there) to the position of the dimension in the buffer.
\<close>

definition setFieldInternal ::
    "ShallowPointTable \<Rightarrow> Id \<Rightarrow> uint64_t \<Rightarrow> 8 word list \<Rightarrow> exn + ShallowPointTable" where
  "setFieldInternal t i idx val =
     (let d = PointLayout_dimDetail (layout t) i;
          dst = getDimension t d idx;
          n = unat (Detail_size d)
      in if length val < n \<or> length (m_data t) < dst + n then Inl UndefinedBehaviour
         else Inr (t\<lparr>m_data := take dst (m_data t) @ take n val @ drop (dst + n) (m_data t)\<rparr>))"

text \<open>\<^verbatim>\<open>getFieldInternal\<close>: the \<^verbatim>\<open>d->size()\<close> bytes copied to \<^verbatim>\<open>value\<close>.\<close>

definition getFieldInternal :: "ShallowPointTable \<Rightarrow> Id \<Rightarrow> uint64_t \<Rightarrow> exn + 8 word list" where
  "getFieldInternal t i idx =
     (let d = PointLayout_dimDetail (layout t) i;
          src = getDimension t d idx;
          n = unat (Detail_size d)
      in if length (m_data t) < src + n then Inl UndefinedBehaviour
         else Inr (take n (drop src (m_data t))))"

subsection \<open>Pool\<close>

text \<open>
  The state of a \<^verbatim>\<open>Pool\<close> that its mutex protects, with the worker threads as a count
  (the length of \<^verbatim>\<open>m_threads\<close>). A task is a value of a type parameter. The functions below
  are the critical sections the calling thread runs under \<^verbatim>\<open>m_mutex\<close>; what the workers do
  between them is not part of the model.
\<close>

record 'task Pool =
  m_verbose :: bool
  m_numThreads :: size_t
  m_queueSize :: size_t
  m_threads :: nat
  m_tasks :: "'task list"
  m_errors :: "string list"
  m_outstanding :: size_t
  m_running :: bool

text \<open>\<^verbatim>\<open>Pool::go\<close>: nothing when running, else set the flag and start \<^verbatim>\<open>m_numThreads\<close> workers.\<close>

definition Pool_go :: "'task Pool \<Rightarrow> 'task Pool" where
  "Pool_go p =
     (if m_running p then p
      else p\<lparr>m_running := True, m_threads := m_threads p + unat (m_numThreads p)\<rparr>)"

text \<open>
  The constructor: the member initialisers (with the defaults of the class for the members
  it does not name), then \<^verbatim>\<open>go()\<close>.
\<close>

definition Pool_ctor :: "size_t \<Rightarrow> size_t \<Rightarrow> bool \<Rightarrow> 'task Pool" where
  "Pool_ctor numThreads queueSize verbose =
     Pool_go \<lparr>m_verbose = verbose,
              m_numThreads = max numThreads 1,
              m_queueSize = max queueSize 1,
              m_threads = 0,
              m_tasks = [],
              m_errors = [],
              m_outstanding = 0,
              m_running = False\<rparr>"

definition Pool_size :: "'task Pool \<Rightarrow> size_t" where
  "Pool_size p = m_numThreads p"

definition Pool_numThreads :: "'task Pool \<Rightarrow> size_t" where
  "Pool_numThreads p = m_numThreads p"

text \<open>
  \<^verbatim>\<open>Pool::join\<close>, the part of the calling thread: nothing when stopped, else clear the flag,
  wait for the workers and clear \<^verbatim>\<open>m_threads\<close>. A worker leaves its loop only when it finds
  the queue empty and the flag cleared, and it counts \<^verbatim>\<open>m_outstanding\<close> down after each
  task, so the queue is empty and nothing is outstanding when \<^verbatim>\<open>join\<close> returns. The
  messages the workers have appended to \<^verbatim>\<open>m_errors\<close> in the meantime are the argument
  \<open>errs\<close>.
\<close>

definition Pool_join :: "string list \<Rightarrow> 'task Pool \<Rightarrow> 'task Pool" where
  "Pool_join errs p =
     (if \<not> m_running p then p
      else p\<lparr>m_running := False, m_threads := 0, m_tasks := [], m_outstanding := 0,
              m_errors := m_errors p @ errs\<rparr>)"

text \<open>
  \<^verbatim>\<open>Pool::add\<close>. The call throws, or waits on \<^verbatim>\<open>m_produceCv\<close> while the queue is full
  (the state is as it was), or appends the task.
\<close>

datatype add_outcome = Thrown exn | Waiting | Enqueued

definition Pool_add :: "'task Pool \<Rightarrow> 'task \<Rightarrow> add_outcome \<times> 'task Pool" where
  "Pool_add p task =
     (if \<not> m_running p then (Thrown (EptError StoppedPool), p)
      else if \<not> (length (m_tasks p) < unat (m_queueSize p)) then (Waiting, p)
      else (Enqueued, p\<lparr>m_tasks := m_tasks p @ [task]\<rparr>))"

section \<open>Notions of the statements and values for the examples\<close>

text \<open>
  A decimal numeral, in the words of the address format (ASCII decimal fields): a
  non-empty string of digits.
\<close>

definition numeral_string :: "string \<Rightarrow> bool" where
  "numeral_string t = (t \<noteq> [] \<and> list_all isdigit t)"

text \<open>
  The pairs of kind and size that the metadata format recognises, in the words of the
  specification: signed and unsigned integers of 1, 2, 4 or 8 bytes, floats of 4 or 8.
\<close>

definition recognized :: "string \<Rightarrow> uint64_t \<Rightarrow> bool" where
  "recognized kind sz =
     ((kind = ''signed'' \<or> kind = ''unsigned'') \<and> (sz = 1 \<or> sz = 2 \<or> sz = 4 \<or> sz = 8)
      \<or> kind = ''float'' \<and> (sz = 4 \<or> sz = 8))"

text \<open>
  The dimensions of a layout lie within its record: every registered id has a detail
  whose bytes end at or before the record size. \<^verbatim>\<open>update\<close> keeps this as long as the
  record size does not overflow \<^verbatim>\<open>size_t\<close> (lemma \<open>update_dims_within\<close> below).
\<close>

definition dims_within :: "PointLayout \<Rightarrow> bool" where
  "dims_within l =
     list_all (\<lambda>i. unat (d_offset (m_detail l i)) + unat (Detail_size (m_detail l i))
                     \<le> unat (m_pointSize l)) (m_used l)"

text \<open>
  A layout for the examples: \<open>X\<close> and \<open>Y\<close> as doubles and \<open>Intensity\<close> as a 32-bit
  unsigned integer, registered in this order through \<^verbatim>\<open>update\<close>; its record size is 20.
\<close>

definition dim_X :: Detail where
  "dim_X = \<lparr>d_id = 1, d_type = Type_Double, d_offset = 0\<rparr>"

definition dim_Y :: Detail where
  "dim_Y = \<lparr>d_id = 2, d_type = Type_Double, d_offset = 0\<rparr>"

definition dim_Intensity :: Detail where
  "dim_Intensity = \<lparr>d_id = 4, d_type = Type_Unsigned32, d_offset = 0\<rparr>"

definition layout_XYI :: PointLayout where
  "layout_XYI =
     snd (update (snd (update (snd (update PointLayout_empty dim_X ''X'')) dim_Y ''Y''))
            dim_Intensity ''Intensity'')"

text \<open>
  For the examples: the conversions over the real numbers, where every integer is
  itself, and metadata with bounds \<open>[0,0,0,10,10,10]\<close>, 100 points and a span of 128, to
  which an example adds its own members. No example reads a real number as text.
\<close>

definition real_ops :: "real double_ops" where
  "real_ops =
     \<lparr>double_of_int = of_int,
      double_to_UInt64 = (\<lambda>r. if 0 \<le> r \<and> r < 2 ^ 64 then Some (word_of_int \<lfloor>r\<rfloor>) else None),
      double_to_string = (\<lambda>r. [])\<rparr>"

definition info_base :: "(string \<times> real Json_Value) list" where
  "info_base =
     [(''bounds'', arrayValue [intValue 0, intValue 0, intValue 0,
                               intValue 10, intValue 10, intValue 10]),
      (''points'', intValue 100),
      (''span'', intValue 128)]"

definition info_five_bounds :: "real Json_Value" where
  "info_five_bounds =
     objectValue [(''bounds'', arrayValue [intValue 0, intValue 0, intValue 0,
                                           intValue 10, intValue 10]),
                  (''dataType'', stringValue ''binary'')]"

definition info_xyz :: "real Json_Value" where
  "info_xyz = objectValue (info_base @ [(''dataType'', stringValue ''xyz'')])"

definition dim_signed3 :: "real Json_Value" where
  "dim_signed3 =
     objectValue [(''name'', stringValue ''X''), (''type'', stringValue ''signed''),
                  (''size'', intValue 3)]"

definition dim_scaled :: "real Json_Value" where
  "dim_scaled =
     objectValue [(''name'', stringValue ''X''), (''type'', stringValue ''signed''),
                  (''size'', intValue 4), (''scale'', realValue (1 / 100))]"

definition dim_plain :: "string \<Rightarrow> int \<Rightarrow> real Json_Value" where
  "dim_plain kind sz =
     objectValue [(''name'', stringValue ''X''), (''type'', stringValue kind),
                  (''size'', intValue sz)]"

definition info_signed3 :: "real Json_Value" where
  "info_signed3 =
     objectValue ((info_base @ [(''dataType'', stringValue ''binary'')])
                    @ [(''schema'', arrayValue [dim_signed3])])"

definition info_srs :: "(string \<times> real Json_Value) list \<Rightarrow> real Json_Value" where
  "info_srs srs =
     objectValue (info_base @ [(''srs'', objectValue srs), (''dataType'', stringValue ''binary'')])"

section \<open>Properties\<close>

subsection \<open>Key: parsing and printing\<close>

lemma isdigit_digit_char: "n < 10 \<Longrightarrow> isdigit (digit_char n)"
  by (simp add: isdigit_def digit_char_def)

lemma digit_value_digit_char: "n < 10 \<Longrightarrow> digit_value (digit_char n) = n"
  by (simp add: digit_value_def digit_char_def)

lemma isdigit_not_special:
  "isdigit c \<Longrightarrow> \<not> isspace c \<and> c \<noteq> CHR ''+'' \<and> c \<noteq> CHR ''-''"
  by (auto simp add: isdigit_def isspace_def)

lemma digits_value_snoc: "digits_value (ds @ [c]) = digits_value ds * 10 + digit_value c"
  by (simp add: digits_value_def)

lemma digits_nonempty: "digits n \<noteq> []"
  by (subst digits.simps) simp

lemma digits_all_digit: "list_all isdigit (digits n)"
proof (induction n rule: digits.induct)
  case (1 n)
  show ?case
  proof (cases "n < 10")
    case True
    then show ?thesis
      by (subst digits.simps) (simp add: isdigit_digit_char)
  next
    case False
    with "1" have "list_all isdigit (digits (n div 10))"
      by simp
    moreover have "isdigit (digit_char (n mod 10))"
      by (simp add: isdigit_digit_char)
    ultimately show ?thesis
      using False by (subst digits.simps) simp
  qed
qed

lemma digits_value_digits: "digits_value (digits n) = n"
proof (induction n rule: digits.induct)
  case (1 n)
  show ?case
  proof (cases "n < 10")
    case True
    then show ?thesis
      by (subst digits.simps) (simp add: digits_value_def digit_value_digit_char)
  next
    case False
    with "1" have "digits_value (digits (n div 10)) = n div 10"
      by simp
    then show ?thesis
      using False
      by (subst digits.simps) (simp add: digits_value_snoc digit_value_digit_char)
  qed
qed

lemma numeral_string_digits: "numeral_string (digits n)"
  by (simp add: numeral_string_def digits_nonempty digits_all_digit)

text \<open>
  \<^verbatim>\<open>stoull\<close> on a numeral followed by anything that does not begin with a digit: the value
  of the numeral, if it fits.
\<close>

lemma stoull_numeral:
  assumes "numeral_string ds" and "r = [] \<or> \<not> isdigit (hd r)" and "digits_value ds < 2 ^ 64"
  shows "stoull (ds @ r) = Inr (of_nat (digits_value ds))"
proof -
  from assms(1) obtain c cs where ds: "ds = c # cs" and c: "isdigit c"
    and all: "\<forall>x \<in> set ds. isdigit x"
    by (cases ds) (auto simp add: numeral_string_def list_all_iff)
  have s1: "dropWhile isspace (ds @ r) = ds @ r"
    using c isdigit_not_special [of c] by (simp add: ds)
  have hd: "hd (ds @ r) = c"
    by (simp add: ds)
  have tw: "takeWhile isdigit (ds @ r) = ds"
  proof (cases r)
    case Nil
    with all show ?thesis by simp
  next
    case (Cons a as)
    with assms(2) have "\<not> isdigit a" by simp
    with all Cons show ?thesis
      by simp
  qed
  have s2: "(if ds @ r \<noteq> [] \<and> (hd (ds @ r) = CHR ''+'' \<or> hd (ds @ r) = CHR ''-'')
             then tl (ds @ r) else ds @ r) = ds @ r"
    using isdigit_not_special [of c] c by (simp add: hd)
  have neg: "\<not> (ds @ r \<noteq> [] \<and> hd (ds @ r) = CHR ''-'')"
    using isdigit_not_special [of c] c by (simp add: hd)
  have ne: "ds \<noteq> []"
    by (simp add: ds)
  show ?thesis
    unfolding stoull_def s1 Let_def s2 tw
    using neg ne assms(3) by simp
qed

lemma stoull_to_string: "stoull (to_string v) = Inr v"
proof -
  have "digits_value (digits (unat v)) < 2 ^ 64"
    using unsigned_less [of v] by (simp add: digits_value_digits)
  from stoull_numeral [OF numeral_string_digits _ this, of "[]"]
  show ?thesis
    by (simp add: to_string_def digits_value_digits)
qed

text \<open>Splitting: a token without the delimiter, followed by the delimiter or by the end.\<close>

lemma Utils_split_loop_last:
  "c \<notin> set t \<Longrightarrow> Utils_split_loop t c = [t]"
  by (subst Utils_split_loop.simps) (simp add: Let_def)

lemma Utils_split_loop_token:
  assumes "c \<notin> set t"
  shows "Utils_split_loop (t @ c # rest) c = t # Utils_split_loop rest c"
proof -
  have "takeWhile (\<lambda>x. x \<noteq> c) (t @ c # rest) = t"
    using assms by (induction t) auto
  moreover have "dropWhile (\<lambda>x. x \<noteq> c) (t @ c # rest) = c # rest"
    using assms by (induction t) auto
  ultimately show ?thesis
    by (subst Utils_split_loop.simps) (simp add: Let_def)
qed

lemma Utils_split_four:
  assumes "c \<notin> set t0" "c \<notin> set t1" "c \<notin> set t2" "c \<notin> set t3"
  shows "Utils_split (t0 @ [c] @ t1 @ [c] @ t2 @ [c] @ t3) c = [t0, t1, t2, t3]"
  using assms
  by (simp add: Utils_split_def Utils_split_loop_token Utils_split_loop_last)


lemma numeral_string_no_delim: "numeral_string t \<Longrightarrow> CHR ''-'' \<notin> set t"
  using isdigit_not_special by (auto simp add: numeral_string_def list_all_iff)

lemma Key_ctor_tokens:
  "Utils_split s CHR ''-'' = [t0, t1, t2, t3] \<Longrightarrow>
     Key_ctor b0 s =
       bindE (stoull t0) (\<lambda>d. bindE (stoull t1) (\<lambda>x. bindE (stoull t2) (\<lambda>y.
       bindE (stoull t3) (\<lambda>z.
         Inr \<lparr>Key_b = b0, Key_d = d, Key_x = x, Key_y = y, Key_z = z\<rparr>))))"
  by (simp add: Key_ctor_def)

lemma length_four:
  "length ts = 4 \<Longrightarrow> \<exists>t0 t1 t2 t3. ts = [t0, t1, t2, t3]"
  by (cases ts; cases "tl ts"; cases "tl (tl ts)"; cases "tl (tl (tl ts))") auto

lemma stoull_error: "stoull t = Inl e \<Longrightarrow> e = StdInvalidArgument \<or> e = StdOutOfRange"
  by (auto simp add: stoull_def Let_def split: if_splits)

text \<open>
  C5. For every key \<open>k\<close>, parsing the string \<^verbatim>\<open>toString\<close> makes of it succeeds and gives
  the key with the depth and the coordinates of \<open>k\<close> (and the default bounds: the string
  carries none), whatever the bounds of \<open>k\<close> are.
\<close>

theorem Key_ctor_toString:
  "Key_ctor b0 (Key_toString k)
     = Inr \<lparr>Key_b = b0, Key_d = Key_d k, Key_x = Key_x k, Key_y = Key_y k, Key_z = Key_z k\<rparr>"
proof -
  have nd: "CHR ''-'' \<notin> set (to_string v)" for v
    using numeral_string_no_delim [OF numeral_string_digits] by (simp add: to_string_def)
  have "Utils_split (Key_toString k) CHR ''-''
      = [to_string (Key_d k), to_string (Key_x k), to_string (Key_y k), to_string (Key_z k)]"
    unfolding Key_toString_def by (rule Utils_split_four) (rule nd)+
  from Key_ctor_tokens [OF this] show ?thesis
    by (simp add: stoull_to_string bindE_def)
qed

theorem Key_ctor_toString_witness:
  "Key_toString \<lparr>Key_b = BOX3D_ctor 0 0 0 10 10 (10::real),
                 Key_d = 12, Key_x = 305, Key_y = 0, Key_z = 7\<rparr> = ''12-305-0-7''
   \<and> Key_ctor (BOX3D_ctor 1 1 1 0 0 (0::real)) ''12-305-0-7''
       = Inr \<lparr>Key_b = BOX3D_ctor 1 1 1 0 0 0,
              Key_d = 12, Key_x = 305, Key_y = 0, Key_z = 7\<rparr>"
proof -
  have s: "Key_toString \<lparr>Key_b = BOX3D_ctor 0 0 0 10 10 (10::real),
                 Key_d = 12, Key_x = 305, Key_y = 0, Key_z = 7\<rparr> = ''12-305-0-7''"
    by (simp add: Key_toString_def to_string_def digits.simps digit_char_def char_of_eq_iff)
  show ?thesis
    using Key_ctor_toString [of "BOX3D_ctor 1 1 1 0 0 (0::real)" "\<lparr>Key_b = BOX3D_ctor 0 0 0 10 10 (10::real),
                 Key_d = 12, Key_x = 305, Key_y = 0, Key_z = 7\<rparr>"]
    unfolding s by simp
qed

lemma stoull_no_numeral:
  "t = [] \<or> (\<not> isdigit (hd t) \<and> \<not> isspace (hd t) \<and> hd t \<noteq> CHR ''+'' \<and> hd t \<noteq> CHR ''-'')
     \<Longrightarrow> stoull t = Inl StdInvalidArgument"
  by (cases t) (auto simp add: stoull_def Let_def)

lemma Key_ctor_numerals:
  assumes num: "numeral_string n0" "numeral_string n1" "numeral_string n2" "numeral_string n3"
    and fits: "digits_value n0 < 2 ^ 64" "digits_value n1 < 2 ^ 64"
      "digits_value n2 < 2 ^ 64" "digits_value n3 < 2 ^ 64"
    and rest: "r0 = [] \<or> \<not> isdigit (hd r0)" "r1 = [] \<or> \<not> isdigit (hd r1)"
      "r2 = [] \<or> \<not> isdigit (hd r2)" "r3 = [] \<or> \<not> isdigit (hd r3)"
    and nodelim: "CHR ''-'' \<notin> set (r0 @ r1 @ r2 @ r3)"
  shows "Key_ctor b0 ((n0 @ r0) @ [CHR ''-''] @ (n1 @ r1) @ [CHR ''-''] @ (n2 @ r2)
                        @ [CHR ''-''] @ (n3 @ r3))
     = Inr \<lparr>Key_b = b0, Key_d = of_nat (digits_value n0), Key_x = of_nat (digits_value n1),
            Key_y = of_nat (digits_value n2), Key_z = of_nat (digits_value n3)\<rparr>"
proof -
  have nd: "CHR ''-'' \<notin> set (n0 @ r0)" "CHR ''-'' \<notin> set (n1 @ r1)"
    "CHR ''-'' \<notin> set (n2 @ r2)" "CHR ''-'' \<notin> set (n3 @ r3)"
    using num nodelim numeral_string_no_delim by auto
  have "Utils_split ((n0 @ r0) @ [CHR ''-''] @ (n1 @ r1) @ [CHR ''-''] @ (n2 @ r2)
                        @ [CHR ''-''] @ (n3 @ r3)) CHR ''-''
      = [n0 @ r0, n1 @ r1, n2 @ r2, n3 @ r3]"
    by (rule Utils_split_four [OF nd])
  from Key_ctor_tokens [OF this] show ?thesis
    using stoull_numeral [OF num(1) rest(1) fits(1)] stoull_numeral [OF num(2) rest(2) fits(2)]
      stoull_numeral [OF num(3) rest(3) fits(3)] stoull_numeral [OF num(4) rest(4) fits(4)]
    by (simp add: bindE_def)
qed

lemma Key_ctor_four_cases:
  assumes "Utils_split s CHR ''-'' = [t0, t1, t2, t3]"
  shows "(\<exists>e. Key_ctor b0 s = Inl e \<and> (e = StdInvalidArgument \<or> e = StdOutOfRange)
              \<and> (\<exists>t \<in> set [t0, t1, t2, t3]. stoull t = Inl e))
       \<or> (\<exists>d x y z. stoull t0 = Inr d \<and> stoull t1 = Inr x \<and> stoull t2 = Inr y
              \<and> stoull t3 = Inr z
              \<and> Key_ctor b0 s = Inr \<lparr>Key_b = b0, Key_d = d, Key_x = x, Key_y = y, Key_z = z\<rparr>)"
  unfolding Key_ctor_tokens [OF assms] bindE_def
  using stoull_error [of t0] stoull_error [of t1] stoull_error [of t2] stoull_error [of t3]
  by (cases "stoull t0"; cases "stoull t1"; cases "stoull t2"; cases "stoull t3") simp_all

lemma isspace_not_special:
  "isspace c \<Longrightarrow> \<not> isdigit c \<and> c \<noteq> CHR ''+'' \<and> c \<noteq> CHR ''-''"
  by (auto simp add: isdigit_def isspace_def)

lemma takeWhile_isdigit_numeral:
  assumes "numeral_string n" and "r = [] \<or> \<not> isdigit (hd r)"
  shows "takeWhile isdigit (n @ r) = n"
proof -
  from assms(1) have all: "\<forall>x \<in> set n. isdigit x"
    by (simp add: numeral_string_def list_all_iff)
  show ?thesis
  proof (cases r)
    case Nil
    with all show ?thesis by simp
  next
    case (Cons a as)
    with assms(2) have "\<not> isdigit a" by simp
    with all Cons show ?thesis by simp
  qed
qed

lemma takeWhile_isdigit_none: "r = [] \<or> \<not> isdigit (hd r) \<Longrightarrow> takeWhile isdigit r = []"
  by (cases r) auto

lemma dropWhile_isspace_prefix:
  assumes "list_all isspace w" and "rest = [] \<or> \<not> isspace (hd rest)"
  shows "dropWhile isspace (w @ rest) = rest"
proof -
  have "dropWhile isspace rest = rest"
    using assms(2) by (cases rest) auto
  moreover have "\<forall>x \<in> set w. isspace x"
    using assms(1) by (simp add: list_all_iff)
  ultimately show ?thesis
    by (simp add: dropWhile_append)
qed

text \<open>
  \<^verbatim>\<open>stoull\<close> on white space, a sign or none, a numeral and anything that does not begin
  with a digit: out of range when the numeral is above \<open>2 ^ 64 - 1\<close>, else its value,
  negated after a minus sign.
\<close>

lemma stoull_general:
  assumes w: "list_all isspace w" and p: "p = [] \<or> p = ''+'' \<or> p = ''-''"
    and n: "numeral_string n" and r: "r = [] \<or> \<not> isdigit (hd r)"
  shows "stoull (w @ p @ n @ r) =
     (if 2 ^ 64 \<le> digits_value n then Inl StdOutOfRange
      else Inr (if p = ''-'' then - of_nat (digits_value n) else of_nat (digits_value n)))"
proof -
  from n obtain c cs where nc: "n = c # cs" and c: "isdigit c"
    by (cases n) (auto simp add: numeral_string_def)
  note cs = isdigit_not_special [OF c]
  have tw: "takeWhile isdigit (n @ r) = n"
    by (rule takeWhile_isdigit_numeral [OF n r])
  have ne: "n \<noteq> []"
    by (simp add: nc)
  have hdn: "hd (n @ r) = c"
    by (simp add: nc)
  have nsp: "p @ n @ r = [] \<or> \<not> isspace (hd (p @ n @ r))"
    using p cs by (auto simp add: nc isspace_def)
  have s1: "dropWhile isspace (w @ p @ n @ r) = p @ n @ r"
    by (rule dropWhile_isspace_prefix [OF w nsp])
  from p consider "p = []" | "p = ''+''" | "p = ''-''"
    by blast
  then show ?thesis
  proof cases
    case 1
    show ?thesis
      unfolding stoull_def s1 Let_def
      using cs ne by (simp add: 1 hdn tw)
  next
    case 2
    show ?thesis
      unfolding stoull_def s1 Let_def
      using ne by (simp add: 2 tw)
  next
    case 3
    show ?thesis
      unfolding stoull_def s1 Let_def
      using ne by (simp add: 3 tw)
  qed
qed

lemma stoull_invalid:
  assumes w: "list_all isspace w"
    and pr: "(p = ''+'' \<or> p = ''-'') \<and> (r = [] \<or> \<not> isdigit (hd r))
       \<or> p = [] \<and> (r = [] \<or> (\<not> isdigit (hd r) \<and> \<not> isspace (hd r)
                                  \<and> hd r \<noteq> CHR ''+'' \<and> hd r \<noteq> CHR ''-''))"
  shows "stoull (w @ p @ r) = Inl StdInvalidArgument"
proof -
  have nsp: "p @ r = [] \<or> \<not> isspace (hd (p @ r))"
    using pr by (auto simp add: isspace_def)
  have s1: "dropWhile isspace (w @ p @ r) = p @ r"
    by (rule dropWhile_isspace_prefix [OF w nsp])
  from pr consider "p = ''+''" "r = [] \<or> \<not> isdigit (hd r)"
    | "p = ''-''" "r = [] \<or> \<not> isdigit (hd r)"
    | "p = []" "r = [] \<or> (\<not> isdigit (hd r) \<and> \<not> isspace (hd r)
                                  \<and> hd r \<noteq> CHR ''+'' \<and> hd r \<noteq> CHR ''-'')"
    by blast
  then show ?thesis
  proof cases
    case 1
    show ?thesis
      unfolding stoull_def s1 Let_def
      using takeWhile_isdigit_none [OF 1(2)] by (simp add: 1(1))
  next
    case 2
    show ?thesis
      unfolding stoull_def s1 Let_def
      using takeWhile_isdigit_none [OF 2(2)] by (simp add: 2(1))
  next
    case 3
    then have "r = [] \<or> \<not> isdigit (hd r)"
      by blast
    from takeWhile_isdigit_none [OF this] 3 show ?thesis
      unfolding stoull_def s1 Let_def by (auto simp add: 3(1))
  qed
qed

lemma token_no_delim:
  assumes "list_all isspace w" and "p = [] \<or> p = ''+''" and "numeral_string n"
    and "CHR ''-'' \<notin> set r"
  shows "CHR ''-'' \<notin> set (w @ p @ n @ r)"
proof -
  have "CHR ''-'' \<notin> set w"
    using assms(1) isspace_not_special [of "CHR ''-''"] by (auto simp add: list_all_iff)
  moreover have "CHR ''-'' \<notin> set p"
    using assms(2) by auto
  moreover have "CHR ''-'' \<notin> set n"
    by (rule numeral_string_no_delim [OF assms(3)])
  ultimately show ?thesis
    using assms(4) by simp
qed

lemma Key_ctor_general:
  assumes w: "list_all isspace w0" "list_all isspace w1" "list_all isspace w2"
      "list_all isspace w3"
    and p: "p0 = [] \<or> p0 = ''+''" "p1 = [] \<or> p1 = ''+''" "p2 = [] \<or> p2 = ''+''"
      "p3 = [] \<or> p3 = ''+''"
    and n: "numeral_string n0" "numeral_string n1" "numeral_string n2" "numeral_string n3"
    and r: "r0 = [] \<or> \<not> isdigit (hd r0)" "r1 = [] \<or> \<not> isdigit (hd r1)"
      "r2 = [] \<or> \<not> isdigit (hd r2)" "r3 = [] \<or> \<not> isdigit (hd r3)"
    and nodelim: "CHR ''-'' \<notin> set (r0 @ r1 @ r2 @ r3)"
  shows "Key_ctor b0 ((w0 @ p0 @ n0 @ r0) @ [CHR ''-''] @ (w1 @ p1 @ n1 @ r1) @ [CHR ''-'']
                        @ (w2 @ p2 @ n2 @ r2) @ [CHR ''-''] @ (w3 @ p3 @ n3 @ r3))
     = (if digits_value n0 < 2 ^ 64 \<and> digits_value n1 < 2 ^ 64
           \<and> digits_value n2 < 2 ^ 64 \<and> digits_value n3 < 2 ^ 64
        then Inr \<lparr>Key_b = b0, Key_d = of_nat (digits_value n0),
                  Key_x = of_nat (digits_value n1), Key_y = of_nat (digits_value n2),
                  Key_z = of_nat (digits_value n3)\<rparr>
        else Inl StdOutOfRange)"
proof -
  have rd: "CHR ''-'' \<notin> set r0" "CHR ''-'' \<notin> set r1" "CHR ''-'' \<notin> set r2"
    "CHR ''-'' \<notin> set r3"
    using nodelim by simp_all
  have sp: "Utils_split ((w0 @ p0 @ n0 @ r0) @ [CHR ''-''] @ (w1 @ p1 @ n1 @ r1) @ [CHR ''-'']
                        @ (w2 @ p2 @ n2 @ r2) @ [CHR ''-''] @ (w3 @ p3 @ n3 @ r3)) CHR ''-''
      = [w0 @ p0 @ n0 @ r0, w1 @ p1 @ n1 @ r1, w2 @ p2 @ n2 @ r2, w3 @ p3 @ n3 @ r3]"
    by (rule Utils_split_four [OF token_no_delim [OF w(1) p(1) n(1) rd(1)]
          token_no_delim [OF w(2) p(2) n(2) rd(2)] token_no_delim [OF w(3) p(3) n(3) rd(3)]
          token_no_delim [OF w(4) p(4) n(4) rd(4)]])
  have st: "stoull (w @ q @ m @ u) =
      (if 2 ^ 64 \<le> digits_value m then Inl StdOutOfRange else Inr (of_nat (digits_value m)))"
    if "list_all isspace w" "q = [] \<or> q = ''+''" "numeral_string m"
      "u = [] \<or> \<not> isdigit (hd u)" for w q m u
  proof -
    from that(2) have q: "q = [] \<or> q = ''+'' \<or> q = ''-''" and nq: "q \<noteq> ''-''"
      by auto
    from stoull_general [OF that(1) q that(3) that(4)] nq show ?thesis
      by simp
  qed
  define v0 where "v0 = digits_value n0"
  define v1 where "v1 = digits_value n1"
  define v2 where "v2 = digits_value n2"
  define v3 where "v3 = digits_value n3"
  define big :: nat where "big = 2 ^ 64"
  show ?thesis
    unfolding Key_ctor_tokens [OF sp]
      st [OF w(1) p(1) n(1) r(1)] st [OF w(2) p(2) n(2) r(2)]
      st [OF w(3) p(3) n(3) r(3)] st [OF w(4) p(4) n(4) r(4)]
      v0_def [symmetric] v1_def [symmetric] v2_def [symmetric] v3_def [symmetric]
      big_def [symmetric]
    by (simp add: bindE_def not_le)
qed

lemma Key_ctor_token_fails:
  assumes "length (Utils_split s CHR ''-'') = 4" and "t \<in> set (Utils_split s CHR ''-'')"
    and "isl (stoull t)"
  shows "isl (Key_ctor b0 s)"
proof -
  from length_four [OF assms(1)] obtain t0 t1 t2 t3
    where ts: "Utils_split s CHR ''-'' = [t0, t1, t2, t3]"
    by blast
  from assms(2) have t: "t = t0 \<or> t = t1 \<or> t = t2 \<or> t = t3"
    unfolding ts by simp
  from Key_ctor_four_cases [OF ts, of b0]
  consider (err) e where "Key_ctor b0 s = Inl e"
    | (ok) d x y z where "stoull t0 = Inr d" "stoull t1 = Inr x" "stoull t2 = Inr y"
        "stoull t3 = Inr z"
    by blast
  then show ?thesis
  proof cases
    case err
    then show ?thesis by simp
  next
    case ok
    with t assms(3) show ?thesis by auto
  qed
qed

lemma Key_ctor_error_source:
  assumes "length (Utils_split s CHR ''-'') = 4" and "Key_ctor b0 s = Inl x"
  shows "\<exists>t \<in> set (Utils_split s CHR ''-''). stoull t = Inl x"
proof -
  from length_four [OF assms(1)] obtain t0 t1 t2 t3
    where ts: "Utils_split s CHR ''-'' = [t0, t1, t2, t3]"
    by blast
  from Key_ctor_four_cases [OF ts, of b0]
  consider (err) e where "Key_ctor b0 s = Inl e" "\<exists>t \<in> set [t0, t1, t2, t3]. stoull t = Inl e"
    | (ok) k where "Key_ctor b0 s = Inr k"
    by blast
  then show ?thesis
  proof cases
    case err
    with assms(2) show ?thesis
      unfolding ts by simp
  next
    case ok
    with assms(2) show ?thesis by simp
  qed
qed

text \<open>
  C4, as the code has it. The constructor splits the string at every hyphen.
  \<^item> If the number of tokens is not 4 it throws the \<^verbatim>\<open>ept_error\<close> \<^verbatim>\<open>"Invalid EPT KEY: " + s\<close>,
    and this is the only \<^verbatim>\<open>ept_error\<close> it throws.
  \<^item> With 4 tokens, each token is converted by \<^verbatim>\<open>std::stoull\<close>, and any failure is a
    \<^verbatim>\<open>std::invalid_argument\<close> or a \<^verbatim>\<open>std::out_of_range\<close> of that function: the constructor
    fails so whenever a token is empty or begins with a character that is neither a
    digit nor white space nor a sign.
  \<^item> On success the key has the bounds of a default-constructed box and the four values
    \<^verbatim>\<open>std::stoull\<close> gives for the four tokens, in the order depth, x, y, z.
  \<^item> \<^verbatim>\<open>std::stoull\<close> reads the leading numeral of a token and ignores what follows it:
    four numerals with values below \<open>2 ^ 64\<close>, each followed by any characters that contain
    no hyphen and do not begin with a digit, are parsed to the four values. Four plain
    numerals are the case of nothing following.
  \<^item> With 4 tokens the constructor fails whenever \<^verbatim>\<open>std::stoull\<close> fails on one of them, and
    its failure is then the failure of \<^verbatim>\<open>std::stoull\<close> on one of the tokens.
  \<^item> What \<^verbatim>\<open>std::stoull\<close> does: on white space (or none), then a sign \<^verbatim>\<open>+\<close> or \<^verbatim>\<open>-\<close> (or
    none), then a numeral, then anything that does not begin with a digit, it fails with
    \<^verbatim>\<open>std::out_of_range\<close> when the value of the numeral exceeds \<open>2 ^ 64 - 1\<close> and otherwise
    returns that value, negated modulo \<open>2 ^ 64\<close> after a minus sign. Where no numeral
    follows the white space and the sign, it fails with \<^verbatim>\<open>std::invalid_argument\<close>.
  \<^item> So four tokens, each of them white space (or none), a plus sign (or none; a minus
    sign cannot be part of a token), a numeral and a rest without hyphen that does not
    begin with a digit, are parsed to the four values when all of them are below
    \<open>2 ^ 64\<close>, and make the constructor fail with \<^verbatim>\<open>std::out_of_range\<close> when one is not.
\<close>

theorem Key_ctor_parse:
  "(length (Utils_split s CHR ''-'') \<noteq> 4 \<longrightarrow> Key_ctor b0 s = Inl (EptError (InvalidKey s)))
   \<and> (Key_ctor b0 s = Inl (EptError e) \<longrightarrow>
        e = InvalidKey s \<and> length (Utils_split s CHR ''-'') \<noteq> 4)
   \<and> (length (Utils_split s CHR ''-'') = 4 \<and> Key_ctor b0 s = Inl x \<longrightarrow>
        x = StdInvalidArgument \<or> x = StdOutOfRange)
   \<and> (length (Utils_split s CHR ''-'') = 4 \<and> t \<in> set (Utils_split s CHR ''-'')
        \<and> (t = [] \<or> (\<not> isdigit (hd t) \<and> \<not> isspace (hd t)
                        \<and> hd t \<noteq> CHR ''+'' \<and> hd t \<noteq> CHR ''-'')) \<longrightarrow>
        isl (Key_ctor b0 s))
   \<and> (Key_ctor b0 s = Inr k \<longrightarrow>
        Key_b k = b0
        \<and> map stoull (Utils_split s CHR ''-'')
            = [Inr (Key_d k), Inr (Key_x k), Inr (Key_y k), Inr (Key_z k)])
   \<and> (numeral_string n0 \<and> numeral_string n1 \<and> numeral_string n2 \<and> numeral_string n3
        \<and> digits_value n0 < 2 ^ 64 \<and> digits_value n1 < 2 ^ 64
        \<and> digits_value n2 < 2 ^ 64 \<and> digits_value n3 < 2 ^ 64
        \<and> (r0 = [] \<or> \<not> isdigit (hd r0)) \<and> (r1 = [] \<or> \<not> isdigit (hd r1))
        \<and> (r2 = [] \<or> \<not> isdigit (hd r2)) \<and> (r3 = [] \<or> \<not> isdigit (hd r3))
        \<and> CHR ''-'' \<notin> set (r0 @ r1 @ r2 @ r3) \<longrightarrow>
        Key_ctor b0 ((n0 @ r0) @ [CHR ''-''] @ (n1 @ r1) @ [CHR ''-''] @ (n2 @ r2)
                       @ [CHR ''-''] @ (n3 @ r3))
          = Inr \<lparr>Key_b = b0, Key_d = of_nat (digits_value n0),
                 Key_x = of_nat (digits_value n1), Key_y = of_nat (digits_value n2),
                 Key_z = of_nat (digits_value n3)\<rparr>)
   \<and> (length (Utils_split s CHR ''-'') = 4 \<and> t \<in> set (Utils_split s CHR ''-'')
        \<and> isl (stoull t) \<longrightarrow>
        isl (Key_ctor b0 s))
   \<and> (length (Utils_split s CHR ''-'') = 4 \<and> Key_ctor b0 s = Inl x \<longrightarrow>
        (\<exists>u \<in> set (Utils_split s CHR ''-''). stoull u = Inl x))
   \<and> (list_all isspace w \<and> (p = [] \<or> p = ''+'' \<or> p = ''-'') \<and> numeral_string n
        \<and> (r = [] \<or> \<not> isdigit (hd r)) \<longrightarrow>
        stoull (w @ p @ n @ r) =
          (if 2 ^ 64 \<le> digits_value n then Inl StdOutOfRange
           else Inr (if p = ''-'' then - of_nat (digits_value n)
                     else of_nat (digits_value n))))
   \<and> (list_all isspace w
        \<and> ((p = ''+'' \<or> p = ''-'') \<and> (r = [] \<or> \<not> isdigit (hd r))
            \<or> p = [] \<and> (r = [] \<or> (\<not> isdigit (hd r) \<and> \<not> isspace (hd r)
                                       \<and> hd r \<noteq> CHR ''+'' \<and> hd r \<noteq> CHR ''-''))) \<longrightarrow>
        stoull (w @ p @ r) = Inl StdInvalidArgument)
   \<and> (list_all isspace w0 \<and> list_all isspace w1 \<and> list_all isspace w2 \<and> list_all isspace w3
        \<and> (p0 = [] \<or> p0 = ''+'') \<and> (p1 = [] \<or> p1 = ''+'')
        \<and> (p2 = [] \<or> p2 = ''+'') \<and> (p3 = [] \<or> p3 = ''+'')
        \<and> numeral_string n0 \<and> numeral_string n1 \<and> numeral_string n2 \<and> numeral_string n3
        \<and> (r0 = [] \<or> \<not> isdigit (hd r0)) \<and> (r1 = [] \<or> \<not> isdigit (hd r1))
        \<and> (r2 = [] \<or> \<not> isdigit (hd r2)) \<and> (r3 = [] \<or> \<not> isdigit (hd r3))
        \<and> CHR ''-'' \<notin> set (r0 @ r1 @ r2 @ r3) \<longrightarrow>
        Key_ctor b0 ((w0 @ p0 @ n0 @ r0) @ [CHR ''-''] @ (w1 @ p1 @ n1 @ r1) @ [CHR ''-'']
                       @ (w2 @ p2 @ n2 @ r2) @ [CHR ''-''] @ (w3 @ p3 @ n3 @ r3))
          = (if digits_value n0 < 2 ^ 64 \<and> digits_value n1 < 2 ^ 64
                \<and> digits_value n2 < 2 ^ 64 \<and> digits_value n3 < 2 ^ 64
             then Inr \<lparr>Key_b = b0, Key_d = of_nat (digits_value n0),
                       Key_x = of_nat (digits_value n1), Key_y = of_nat (digits_value n2),
                       Key_z = of_nat (digits_value n3)\<rparr>
             else Inl StdOutOfRange))"
proof -
  let ?ts = "Utils_split s CHR ''-''"
  have count: "Key_ctor b0 s = Inl (EptError (InvalidKey s))" if "length ?ts \<noteq> 4"
    using that by (simp add: Key_ctor_def)
  have four: "(\<exists>e. Key_ctor b0 s = Inl e \<and> (e = StdInvalidArgument \<or> e = StdOutOfRange)
                  \<and> (\<exists>t \<in> set ?ts. stoull t = Inl e))
       \<or> (\<exists>d x y z. map stoull ?ts = [Inr d, Inr x, Inr y, Inr z]
              \<and> Key_ctor b0 s = Inr \<lparr>Key_b = b0, Key_d = d, Key_x = x, Key_y = y, Key_z = z\<rparr>)"
    if "length ?ts = 4"
  proof -
    from length_four [OF that] obtain t0 t1 t2 t3 where ts: "?ts = [t0, t1, t2, t3]"
      by blast
    from Key_ctor_four_cases [OF ts, of b0] show ?thesis
      unfolding ts by auto
  qed
  have c1: "length ?ts \<noteq> 4 \<longrightarrow> Key_ctor b0 s = Inl (EptError (InvalidKey s))"
    using count by blast
  have c2: "Key_ctor b0 s = Inl (EptError e) \<longrightarrow> e = InvalidKey s \<and> length ?ts \<noteq> 4"
    using count four by (cases "length ?ts = 4") auto
  have c3: "length ?ts = 4 \<and> Key_ctor b0 s = Inl x \<longrightarrow> x = StdInvalidArgument \<or> x = StdOutOfRange"
    using four by auto
  have c4: "length ?ts = 4 \<and> t \<in> set ?ts
        \<and> (t = [] \<or> (\<not> isdigit (hd t) \<and> \<not> isspace (hd t)
                        \<and> hd t \<noteq> CHR ''+'' \<and> hd t \<noteq> CHR ''-'')) \<longrightarrow>
        isl (Key_ctor b0 s)"
  proof (intro impI, elim conjE)
    assume len: "length ?ts = 4" and t: "t \<in> set ?ts"
      and bad: "t = [] \<or> (\<not> isdigit (hd t) \<and> \<not> isspace (hd t)
                        \<and> hd t \<noteq> CHR ''+'' \<and> hd t \<noteq> CHR ''-'')"
    have "stoull t = Inl StdInvalidArgument"
      by (rule stoull_no_numeral [OF bad])
    then have "isl (stoull t)"
      by simp
    from Key_ctor_token_fails [OF len t this] show "isl (Key_ctor b0 s)" .
  qed
  have c5: "Key_ctor b0 s = Inr k \<longrightarrow>
        Key_b k = b0
        \<and> map stoull ?ts = [Inr (Key_d k), Inr (Key_x k), Inr (Key_y k), Inr (Key_z k)]"
    using count four by (cases "length ?ts = 4") auto
  have c6: "numeral_string n0 \<and> numeral_string n1 \<and> numeral_string n2 \<and> numeral_string n3
        \<and> digits_value n0 < 2 ^ 64 \<and> digits_value n1 < 2 ^ 64
        \<and> digits_value n2 < 2 ^ 64 \<and> digits_value n3 < 2 ^ 64
        \<and> (r0 = [] \<or> \<not> isdigit (hd r0)) \<and> (r1 = [] \<or> \<not> isdigit (hd r1))
        \<and> (r2 = [] \<or> \<not> isdigit (hd r2)) \<and> (r3 = [] \<or> \<not> isdigit (hd r3))
        \<and> CHR ''-'' \<notin> set (r0 @ r1 @ r2 @ r3) \<longrightarrow>
        Key_ctor b0 ((n0 @ r0) @ [CHR ''-''] @ (n1 @ r1) @ [CHR ''-''] @ (n2 @ r2)
                       @ [CHR ''-''] @ (n3 @ r3))
          = Inr \<lparr>Key_b = b0, Key_d = of_nat (digits_value n0),
                 Key_x = of_nat (digits_value n1), Key_y = of_nat (digits_value n2),
                 Key_z = of_nat (digits_value n3)\<rparr>"
    using Key_ctor_numerals [of n0 n1 n2 n3 r0 r1 r2 r3 b0] by blast
  have c7: "length ?ts = 4 \<and> t \<in> set ?ts \<and> isl (stoull t) \<longrightarrow> isl (Key_ctor b0 s)"
    using Key_ctor_token_fails [of s t b0] by blast
  have c8: "length ?ts = 4 \<and> Key_ctor b0 s = Inl x \<longrightarrow> (\<exists>u \<in> set ?ts. stoull u = Inl x)"
    using Key_ctor_error_source [of s b0 x] by blast
  have c9: "list_all isspace w \<and> (p = [] \<or> p = ''+'' \<or> p = ''-'') \<and> numeral_string n
        \<and> (r = [] \<or> \<not> isdigit (hd r)) \<longrightarrow>
        stoull (w @ p @ n @ r) =
          (if 2 ^ 64 \<le> digits_value n then Inl StdOutOfRange
           else Inr (if p = ''-'' then - of_nat (digits_value n)
                     else of_nat (digits_value n)))"
    using stoull_general [of w p n r] by blast
  have c10: "list_all isspace w
        \<and> ((p = ''+'' \<or> p = ''-'') \<and> (r = [] \<or> \<not> isdigit (hd r))
            \<or> p = [] \<and> (r = [] \<or> (\<not> isdigit (hd r) \<and> \<not> isspace (hd r)
                                       \<and> hd r \<noteq> CHR ''+'' \<and> hd r \<noteq> CHR ''-''))) \<longrightarrow>
        stoull (w @ p @ r) = Inl StdInvalidArgument"
    using stoull_invalid [of w p r] by blast
  have c11: "list_all isspace w0 \<and> list_all isspace w1 \<and> list_all isspace w2 \<and> list_all isspace w3
        \<and> (p0 = [] \<or> p0 = ''+'') \<and> (p1 = [] \<or> p1 = ''+'')
        \<and> (p2 = [] \<or> p2 = ''+'') \<and> (p3 = [] \<or> p3 = ''+'')
        \<and> numeral_string n0 \<and> numeral_string n1 \<and> numeral_string n2 \<and> numeral_string n3
        \<and> (r0 = [] \<or> \<not> isdigit (hd r0)) \<and> (r1 = [] \<or> \<not> isdigit (hd r1))
        \<and> (r2 = [] \<or> \<not> isdigit (hd r2)) \<and> (r3 = [] \<or> \<not> isdigit (hd r3))
        \<and> CHR ''-'' \<notin> set (r0 @ r1 @ r2 @ r3) \<longrightarrow>
        Key_ctor b0 ((w0 @ p0 @ n0 @ r0) @ [CHR ''-''] @ (w1 @ p1 @ n1 @ r1) @ [CHR ''-'']
                       @ (w2 @ p2 @ n2 @ r2) @ [CHR ''-''] @ (w3 @ p3 @ n3 @ r3))
          = (if digits_value n0 < 2 ^ 64 \<and> digits_value n1 < 2 ^ 64
                \<and> digits_value n2 < 2 ^ 64 \<and> digits_value n3 < 2 ^ 64
             then Inr \<lparr>Key_b = b0, Key_d = of_nat (digits_value n0),
                       Key_x = of_nat (digits_value n1), Key_y = of_nat (digits_value n2),
                       Key_z = of_nat (digits_value n3)\<rparr>
             else Inl StdOutOfRange)"
    using Key_ctor_general [of w0 w1 w2 w3 p0 p1 p2 p3 n0 n1 n2 n3 r0 r1 r2 r3 b0] by blast
  from c1 c2 c3 c4 c5 c6 c7 c8 c9 c10 c11 show ?thesis
    by (intro conjI)
qed

theorem Key_ctor_parse_witness:
  "length (Utils_split ''1-2-3'' CHR ''-'') \<noteq> 4
   \<and> Key_ctor (BOX3D_ctor 1 1 1 0 0 (0::real)) ''1-2-3'' = Inl (EptError (InvalidKey ''1-2-3''))
   \<and> length (Utils_split ''7-a-0-0'' CHR ''-'') = 4
   \<and> ''a'' \<in> set (Utils_split ''7-a-0-0'' CHR ''-'')
   \<and> Key_ctor (BOX3D_ctor 1 1 1 0 0 (0::real)) ''7-a-0-0'' = Inl StdInvalidArgument
   \<and> isl (Key_ctor (BOX3D_ctor 1 1 1 0 0 (0::real)) ''7-a-0-0'')
   \<and> Key_ctor (BOX3D_ctor 1 1 1 0 0 (0::real)) ''12-305-0-7''
       = Inr \<lparr>Key_b = BOX3D_ctor 1 1 1 0 0 0, Key_d = 12, Key_x = 305, Key_y = 0, Key_z = 7\<rparr>
   \<and> map stoull (Utils_split ''12-305-0-7'' CHR ''-'') = [Inr 12, Inr 305, Inr 0, Inr 7]
   \<and> numeral_string ''12'' \<and> numeral_string ''305'' \<and> numeral_string ''0''
   \<and> numeral_string ''7''
   \<and> digits_value ''12'' = 12 \<and> digits_value ''305'' = 305 \<and> digits_value ''0'' = 0
   \<and> digits_value ''7'' = 7
   \<and> Key_ctor (BOX3D_ctor 1 1 1 0 0 (0::real)) ''12-305 -0-7x''
       = Inr \<lparr>Key_b = BOX3D_ctor 1 1 1 0 0 0, Key_d = 12, Key_x = 305, Key_y = 0, Key_z = 7\<rparr>
   \<and> isl (stoull ''a'')
   \<and> (\<exists>u \<in> set (Utils_split ''7-a-0-0'' CHR ''-''). stoull u = Inl StdInvalidArgument)
   \<and> list_all isspace '' ''
   \<and> numeral_string ''18446744073709551616''
   \<and> digits_value ''18446744073709551616'' = 2 ^ 64
   \<and> stoull '' +12x'' = Inr 12
   \<and> stoull ''-12'' = Inr (- 12)
   \<and> stoull '' 18446744073709551616'' = Inl StdOutOfRange
   \<and> stoull '' +x'' = Inl StdInvalidArgument
   \<and> stoull '' '' = Inl StdInvalidArgument
   \<and> Key_ctor (BOX3D_ctor 1 1 1 0 0 (0::real)) '' 12-+305-0-7x''
       = Inr \<lparr>Key_b = BOX3D_ctor 1 1 1 0 0 0, Key_d = 12, Key_x = 305, Key_y = 0, Key_z = 7\<rparr>
   \<and> Key_ctor (BOX3D_ctor 1 1 1 0 0 (0::real)) ''12-305-18446744073709551616-7''
       = Inl StdOutOfRange"
proof -
  let ?b = "BOX3D_ctor 1 1 1 0 0 (0::real)"
  let ?k = "\<lparr>Key_b = ?b, Key_d = 12, Key_x = 305, Key_y = 0, Key_z = 7\<rparr>"
  let ?big = "''18446744073709551616''"
  note P = Key_ctor_parse
  have ev: "Utils_split ''1-2-3'' CHR ''-'' = [''1'', ''2'', ''3'']"
    "Utils_split ''7-a-0-0'' CHR ''-'' = [''7'', ''a'', ''0'', ''0'']"
    "Utils_split ''12-305-0-7'' CHR ''-'' = [''12'', ''305'', ''0'', ''7'']"
    by (simp_all add: Utils_split_def Utils_split_loop.simps Let_def)
  have st: "stoull ''7'' = Inr 7" "stoull ''a'' = Inl StdInvalidArgument"
    "stoull ''12'' = Inr 12" "stoull ''305'' = Inr 305" "stoull ''0'' = Inr 0"
    by (simp_all add: stoull_def isspace_def isdigit_def digits_value_def digit_value_def Let_def)
  have k1: "Key_ctor ?b ''7-a-0-0'' = Inl StdInvalidArgument"
    by (simp add: Key_ctor_tokens [OF ev(2)] st bindE_def)
  have k2: "Key_ctor ?b ''12-305-0-7'' = Inr ?k"
    by (simp add: Key_ctor_tokens [OF ev(3)] st bindE_def)
  have nm: "numeral_string ''12''" "numeral_string ''305''" "numeral_string ''0''"
    "numeral_string ''7''"
    by (simp_all add: numeral_string_def isdigit_def)
  have nbig: "numeral_string ?big"
    by (simp add: numeral_string_def isdigit_def)
  have dv: "digits_value ''12'' = 12" "digits_value ''305'' = 305" "digits_value ''0'' = 0"
    "digits_value ''7'' = 7"
    by (simp_all add: digits_value_def digit_value_def)
  have dbig: "digits_value ?big = 2 ^ 64"
    by (simp add: digits_value_def digit_value_def)
  have sp: "\<not> isdigit (hd '' '')" "\<not> isdigit (hd ''x'')"
    by (simp_all add: isdigit_def)
  have ws: "list_all isspace '' ''" "list_all isspace []"
    by (simp_all add: isspace_def)
  have bad: "\<not> isdigit (hd ''a'')" "\<not> isspace (hd ''a'')"
    by (simp_all add: isdigit_def isspace_def)
  have w1: "Key_ctor ?b ''1-2-3'' = Inl (EptError (InvalidKey ''1-2-3''))"
    using P [where s = "''1-2-3''" and ?b0.0 = "?b", THEN conjunct1] ev(1)
    by simp
  have w2: "InvalidKey ''1-2-3'' = InvalidKey ''1-2-3''
      \<and> length (Utils_split ''1-2-3'' CHR ''-'') \<noteq> 4"
    using P [where s = "''1-2-3''" and ?b0.0 = "?b" and e = "InvalidKey ''1-2-3''",
        THEN conjunct2, THEN conjunct1] w1
    by simp
  have w3: "StdInvalidArgument = StdInvalidArgument \<or> StdInvalidArgument = StdOutOfRange"
    using P [where s = "''7-a-0-0''" and ?b0.0 = "?b" and x = StdInvalidArgument,
        THEN conjunct2, THEN conjunct2, THEN conjunct1] ev(2) k1
    by simp
  have w4: "isl (Key_ctor ?b ''7-a-0-0'')"
    using P [where s = "''7-a-0-0''" and ?b0.0 = "?b" and t = "''a''",
        THEN conjunct2, THEN conjunct2, THEN conjunct2, THEN conjunct1] ev(2) bad
    by simp
  have w5: "map stoull (Utils_split ''12-305-0-7'' CHR ''-'') = [Inr 12, Inr 305, Inr 0, Inr 7]"
    using P [where s = "''12-305-0-7''" and ?b0.0 = "?b" and k = "?k",
        THEN conjunct2, THEN conjunct2, THEN conjunct2, THEN conjunct2, THEN conjunct1] k2
    by simp
  have w6: "Key_ctor ?b ((''12'' @ []) @ [CHR ''-''] @ (''305'' @ '' '') @ [CHR ''-'']
                @ (''0'' @ []) @ [CHR ''-''] @ (''7'' @ ''x'')) = Inr ?k"
    using P [where ?b0.0 = "?b" and ?n0.0 = "''12''" and ?n1.0 = "''305''"
        and ?n2.0 = "''0''" and ?n3.0 = "''7''" and ?r0.0 = "[]" and ?r1.0 = "'' ''"
        and ?r2.0 = "[]" and ?r3.0 = "''x''",
        THEN conjunct2, THEN conjunct2, THEN conjunct2, THEN conjunct2, THEN conjunct2,
        THEN conjunct1]
      nm dv sp
    by simp
  have w6': "Key_ctor ?b ''12-305 -0-7x'' = Inr ?k"
    using w6 by simp
  have h7: "isl (stoull ''a'')"
    by (simp add: st)
  have w7: "isl (Key_ctor ?b ''7-a-0-0'')"
    using P [where s = "''7-a-0-0''" and ?b0.0 = "?b" and t = "''a''",
        THEN conjunct2, THEN conjunct2, THEN conjunct2, THEN conjunct2, THEN conjunct2, THEN conjunct2, THEN conjunct1]
      ev(2) h7
    by simp
  have w8: "\<exists>u \<in> set (Utils_split ''7-a-0-0'' CHR ''-''). stoull u = Inl StdInvalidArgument"
    using P [where s = "''7-a-0-0''" and ?b0.0 = "?b" and x = StdInvalidArgument,
        THEN conjunct2, THEN conjunct2, THEN conjunct2, THEN conjunct2, THEN conjunct2, THEN conjunct2, THEN conjunct2, THEN conjunct1] ev(2) k1
    by simp
  have w9a: "stoull ('' '' @ ''+'' @ ''12'' @ ''x'') = Inr 12"
    using P [where w = "'' ''" and p = "''+''" and n = "''12''" and r = "''x''",
        THEN conjunct2, THEN conjunct2, THEN conjunct2, THEN conjunct2,
        THEN conjunct2, THEN conjunct2, THEN conjunct2, THEN conjunct2, THEN conjunct1]
      ws nm dv sp
    by simp
  have w9b: "stoull ([] @ ''-'' @ ''12'' @ []) = Inr (- 12)"
    using P [where w = "[]" and p = "''-''" and n = "''12''" and r = "[]",
        THEN conjunct2, THEN conjunct2, THEN conjunct2, THEN conjunct2,
        THEN conjunct2, THEN conjunct2, THEN conjunct2, THEN conjunct2, THEN conjunct1]
      ws nm dv
    by simp
  have w9c: "stoull ('' '' @ [] @ ?big @ []) = Inl StdOutOfRange"
    using P [where w = "'' ''" and p = "[]" and n = "?big" and r = "[]",
        THEN conjunct2, THEN conjunct2, THEN conjunct2, THEN conjunct2,
        THEN conjunct2, THEN conjunct2, THEN conjunct2, THEN conjunct2, THEN conjunct1]
      ws nbig dbig
    by simp
  have w10a: "stoull ('' '' @ ''+'' @ ''x'') = Inl StdInvalidArgument"
    using P [where w = "'' ''" and p = "''+''" and r = "''x''",
        THEN conjunct2, THEN conjunct2, THEN conjunct2, THEN conjunct2,
        THEN conjunct2, THEN conjunct2, THEN conjunct2, THEN conjunct2,
        THEN conjunct2, THEN conjunct1]
      ws sp
    by simp
  have w10b: "stoull ('' '' @ [] @ []) = Inl StdInvalidArgument"
    using P [where w = "'' ''" and p = "[]" and r = "[]",
        THEN conjunct2, THEN conjunct2, THEN conjunct2, THEN conjunct2,
        THEN conjunct2, THEN conjunct2, THEN conjunct2, THEN conjunct2,
        THEN conjunct2, THEN conjunct1]
      ws
    by simp
  have w11a: "Key_ctor ?b (('' '' @ [] @ ''12'' @ []) @ [CHR ''-''] @ ([] @ ''+'' @ ''305'' @ [])
                @ [CHR ''-''] @ ([] @ [] @ ''0'' @ []) @ [CHR ''-''] @ ([] @ [] @ ''7'' @ ''x''))
      = Inr ?k"
    using P [where ?b0.0 = "?b" and ?w0.0 = "'' ''" and ?w1.0 = "[]" and ?w2.0 = "[]"
        and ?w3.0 = "[]" and ?p0.0 = "[]" and ?p1.0 = "''+''" and ?p2.0 = "[]"
        and ?p3.0 = "[]" and ?n0.0 = "''12''" and ?n1.0 = "''305''" and ?n2.0 = "''0''"
        and ?n3.0 = "''7''" and ?r0.0 = "[]" and ?r1.0 = "[]" and ?r2.0 = "[]"
        and ?r3.0 = "''x''",
        THEN conjunct2, THEN conjunct2, THEN conjunct2, THEN conjunct2,
        THEN conjunct2, THEN conjunct2, THEN conjunct2, THEN conjunct2,
        THEN conjunct2, THEN conjunct2]
      ws nm dv sp
    by simp
  have w11b: "Key_ctor ?b (([] @ [] @ ''12'' @ []) @ [CHR ''-''] @ ([] @ [] @ ''305'' @ [])
                @ [CHR ''-''] @ ([] @ [] @ ?big @ []) @ [CHR ''-''] @ ([] @ [] @ ''7'' @ []))
      = Inl StdOutOfRange"
    using P [where ?b0.0 = "?b" and ?w0.0 = "[]" and ?w1.0 = "[]" and ?w2.0 = "[]"
        and ?w3.0 = "[]" and ?p0.0 = "[]" and ?p1.0 = "[]" and ?p2.0 = "[]"
        and ?p3.0 = "[]" and ?n0.0 = "''12''" and ?n1.0 = "''305''" and ?n2.0 = "?big"
        and ?n3.0 = "''7''" and ?r0.0 = "[]" and ?r1.0 = "[]" and ?r2.0 = "[]"
        and ?r3.0 = "[]",
        THEN conjunct2, THEN conjunct2, THEN conjunct2, THEN conjunct2,
        THEN conjunct2, THEN conjunct2, THEN conjunct2, THEN conjunct2,
        THEN conjunct2, THEN conjunct2]
      ws nm nbig dv dbig
    by simp
  have fin: "stoull '' +12x'' = Inr 12" "stoull ''-12'' = Inr (- 12)"
    "stoull '' 18446744073709551616'' = Inl StdOutOfRange"
    "stoull '' +x'' = Inl StdInvalidArgument" "stoull '' '' = Inl StdInvalidArgument"
    "Key_ctor ?b '' 12-+305-0-7x'' = Inr ?k"
    "Key_ctor ?b ''12-305-18446744073709551616-7'' = Inl StdOutOfRange"
    using w9a w9b w9c w10a w10b w11a w11b by simp_all
  show ?thesis
    unfolding ev
    using w1 w2 [unfolded ev] w3 k1 w4 k2 w5 [unfolded ev] nm dv w6' h7 w7 w8 [unfolded ev]
      ws(1) nbig dbig fin
    by simp
qed

text \<open>
  C4 as stated fails: the last token of \<^verbatim>\<open>0-0-0-0x\<close> is not a numeral, and the constructor
  does not fail on it; it returns the key \<^verbatim>\<open>0-0-0-0\<close>.
\<close>

theorem Key_ctor_accepts_non_numeric_counterexample:
  "Utils_split ''0-0-0-0x'' CHR ''-'' = [''0'', ''0'', ''0'', ''0x'']
   \<and> \<not> numeral_string ''0x''
   \<and> Key_ctor (BOX3D_ctor 1 1 1 0 0 (0::real)) ''0-0-0-0x''
       = Inr \<lparr>Key_b = BOX3D_ctor 1 1 1 0 0 0, Key_d = 0, Key_x = 0, Key_y = 0, Key_z = 0\<rparr>"
  by (simp add: Key_ctor_def Utils_split_def Utils_split_loop.simps bindE_def
      stoull_def isspace_def isdigit_def digits_value_def digit_value_def numeral_string_def
      Let_def)

subsection \<open>Key: bisection\<close>

lemma and_push_bit_1_iff:
  fixes w :: "'a::len word"
  shows "(w AND push_bit n 1 \<noteq> 0) = bit w n"
  by (simp add: and_exp_eq_0_iff_not_bit)


lemma step_0:
  "step direction key 0 =
     Inr (key\<lparr>Key_b := (Key_b key)\<lparr>
                 minx := (if bit direction 0
                          then minx (Key_b key) + (maxx (Key_b key) - minx (Key_b key)) / (1 + 1)
                          else minx (Key_b key)),
                 maxx := (if bit direction 0 then maxx (Key_b key)
                          else minx (Key_b key) + (maxx (Key_b key) - minx (Key_b key)) / (1 + 1))\<rparr>,
              Key_x := (if bit direction 0 then Key_x key * 2 + 1 else Key_x key * 2)\<rparr>)"
  using and_push_bit_1_iff [of direction 0]
  by (simp add: step_def bindE_def Key_idAt_def Key_idAt_put_def Key_at_def Key_at_put_def
      Let_def)

lemma step_1:
  "step direction key 1 =
     Inr (key\<lparr>Key_b := (Key_b key)\<lparr>
                 miny := (if bit direction 1
                          then miny (Key_b key) + (maxy (Key_b key) - miny (Key_b key)) / (1 + 1)
                          else miny (Key_b key)),
                 maxy := (if bit direction 1 then maxy (Key_b key)
                          else miny (Key_b key) + (maxy (Key_b key) - miny (Key_b key)) / (1 + 1))\<rparr>,
              Key_y := (if bit direction 1 then Key_y key * 2 + 1 else Key_y key * 2)\<rparr>)"
  using and_push_bit_1_iff [of direction 1]
  by (simp add: step_def bindE_def Key_idAt_def Key_idAt_put_def Key_at_def Key_at_put_def
      Let_def)

lemma step_2:
  "step direction key 2 =
     Inr (key\<lparr>Key_b := (Key_b key)\<lparr>
                 minz := (if bit direction 2
                          then minz (Key_b key) + (maxz (Key_b key) - minz (Key_b key)) / (1 + 1)
                          else minz (Key_b key)),
                 maxz := (if bit direction 2 then maxz (Key_b key)
                          else minz (Key_b key) + (maxz (Key_b key) - minz (Key_b key)) / (1 + 1))\<rparr>,
              Key_z := (if bit direction 2 then Key_z key * 2 + 1 else Key_z key * 2)\<rparr>)"
  using and_push_bit_1_iff [of direction 2]
  by (simp add: step_def bindE_def Key_idAt_def Key_idAt_put_def Key_at_def Key_at_put_def
      Let_def)


lemma bisect_loop_unfold:
  "bisect_loop direction key 0 =
     (case step direction key 0 of Inl e \<Rightarrow> Inl e | Inr k1 \<Rightarrow>
      (case step direction k1 1 of Inl e \<Rightarrow> Inl e | Inr k2 \<Rightarrow>
       (case step direction k2 2 of Inl e \<Rightarrow> Inl e | Inr k3 \<Rightarrow> Inr k3)))"
proof -
  have l3: "bisect_loop direction k 3 = Inr k" for k :: "'a Key"
    by (subst bisect_loop.simps) simp
  have l2: "bisect_loop direction k 2 =
      (case step direction k 2 of Inl e \<Rightarrow> Inl e | Inr k3 \<Rightarrow> Inr k3)" for k :: "'a Key"
    by (subst bisect_loop.simps) (simp add: l3 split: sum.splits)
  have l1: "bisect_loop direction k 1 =
      (case step direction k 1 of Inl e \<Rightarrow> Inl e | Inr k2 \<Rightarrow> bisect_loop direction k2 2)"
    for k :: "'a Key"
    by (subst bisect_loop.simps) (simp split: sum.splits)
  show ?thesis
    by (subst bisect_loop.simps) (simp add: l1 l2 split: sum.splits)
qed

lemma Key_bisect_eq:
  "Key_bisect k direction =
     Inr \<lparr>Key_b =
            \<lparr>minx = (if bit direction 0
                     then minx (Key_b k) + (maxx (Key_b k) - minx (Key_b k)) / (1 + 1)
                     else minx (Key_b k)),
             miny = (if bit direction 1
                     then miny (Key_b k) + (maxy (Key_b k) - miny (Key_b k)) / (1 + 1)
                     else miny (Key_b k)),
             minz = (if bit direction 2
                     then minz (Key_b k) + (maxz (Key_b k) - minz (Key_b k)) / (1 + 1)
                     else minz (Key_b k)),
             maxx = (if bit direction 0 then maxx (Key_b k)
                     else minx (Key_b k) + (maxx (Key_b k) - minx (Key_b k)) / (1 + 1)),
             maxy = (if bit direction 1 then maxy (Key_b k)
                     else miny (Key_b k) + (maxy (Key_b k) - miny (Key_b k)) / (1 + 1)),
             maxz = (if bit direction 2 then maxz (Key_b k)
                     else minz (Key_b k) + (maxz (Key_b k) - minz (Key_b k)) / (1 + 1))\<rparr>,
          Key_d = Key_d k + 1,
          Key_x = (if bit direction 0 then Key_x k * 2 + 1 else Key_x k * 2),
          Key_y = (if bit direction 1 then Key_y k * 2 + 1 else Key_y k * 2),
          Key_z = (if bit direction 2 then Key_z k * 2 + 1 else Key_z k * 2)\<rparr>"
proof -
  obtain b dd xx yy zz where k: "k = \<lparr>Key_b = b, Key_d = dd, Key_x = xx, Key_y = yy, Key_z = zz\<rparr>"
    by (cases k) simp
  obtain x0 y0 z0 x1 y1 z1
    where b: "b = \<lparr>minx = x0, miny = y0, minz = z0, maxx = x1, maxy = y1, maxz = z1\<rparr>"
    by (cases b) simp
  show ?thesis
    unfolding Key_bisect_def bisect_loop_unfold step_0 step_1 step_2 k b
    by (simp cong: if_cong)
qed

theorem Key_bisect_child:
  "(case Key_bisect k direction of
      Inl e \<Rightarrow> False
    | Inr c \<Rightarrow>
        Key_d c = Key_d k + 1
        \<and> (let mid = minx (Key_b k) + (maxx (Key_b k) - minx (Key_b k)) / (1 + 1) in
             if bit direction 0
             then minx (Key_b c) = mid \<and> maxx (Key_b c) = maxx (Key_b k)
                  \<and> Key_x c = 2 * Key_x k + 1
             else maxx (Key_b c) = mid \<and> minx (Key_b c) = minx (Key_b k)
                  \<and> Key_x c = 2 * Key_x k)
        \<and> (let mid = miny (Key_b k) + (maxy (Key_b k) - miny (Key_b k)) / (1 + 1) in
             if bit direction 1
             then miny (Key_b c) = mid \<and> maxy (Key_b c) = maxy (Key_b k)
                  \<and> Key_y c = 2 * Key_y k + 1
             else maxy (Key_b c) = mid \<and> miny (Key_b c) = miny (Key_b k)
                  \<and> Key_y c = 2 * Key_y k)
        \<and> (let mid = minz (Key_b k) + (maxz (Key_b k) - minz (Key_b k)) / (1 + 1) in
             if bit direction 2
             then minz (Key_b c) = mid \<and> maxz (Key_b c) = maxz (Key_b k)
                  \<and> Key_z c = 2 * Key_z k + 1
             else maxz (Key_b c) = mid \<and> minz (Key_b c) = minz (Key_b k)
                  \<and> Key_z c = 2 * Key_z k))
   \<and> Key_bisect \<lparr>Key_b = BOX3D_ctor 0 0 0 10 10 (10::real),
                  Key_d = 0, Key_x = 0, Key_y = 0, Key_z = 0\<rparr> 7
       = Inr \<lparr>Key_b = BOX3D_ctor 5 5 5 10 10 10, Key_d = 1, Key_x = 1, Key_y = 1, Key_z = 1\<rparr>
   \<and> Key_bisect \<lparr>Key_b = BOX3D_ctor 0 0 0 10 10 (10::real),
                  Key_d = 0, Key_x = 0, Key_y = 0, Key_z = 0\<rparr> 0
       = Inr \<lparr>Key_b = BOX3D_ctor 0 0 0 5 5 5, Key_d = 1, Key_x = 0, Key_y = 0, Key_z = 0\<rparr>"
proof (intro conjI)
  show "case Key_bisect k direction of
      Inl e \<Rightarrow> False
    | Inr c \<Rightarrow>
        Key_d c = Key_d k + 1
        \<and> (let mid = minx (Key_b k) + (maxx (Key_b k) - minx (Key_b k)) / (1 + 1) in
             if bit direction 0
             then minx (Key_b c) = mid \<and> maxx (Key_b c) = maxx (Key_b k)
                  \<and> Key_x c = 2 * Key_x k + 1
             else maxx (Key_b c) = mid \<and> minx (Key_b c) = minx (Key_b k)
                  \<and> Key_x c = 2 * Key_x k)
        \<and> (let mid = miny (Key_b k) + (maxy (Key_b k) - miny (Key_b k)) / (1 + 1) in
             if bit direction 1
             then miny (Key_b c) = mid \<and> maxy (Key_b c) = maxy (Key_b k)
                  \<and> Key_y c = 2 * Key_y k + 1
             else maxy (Key_b c) = mid \<and> miny (Key_b c) = miny (Key_b k)
                  \<and> Key_y c = 2 * Key_y k)
        \<and> (let mid = minz (Key_b k) + (maxz (Key_b k) - minz (Key_b k)) / (1 + 1) in
             if bit direction 2
             then minz (Key_b c) = mid \<and> maxz (Key_b c) = maxz (Key_b k)
                  \<and> Key_z c = 2 * Key_z k + 1
             else maxz (Key_b c) = mid \<and> minz (Key_b c) = minz (Key_b k)
                  \<and> Key_z c = 2 * Key_z k)"
    by (simp add: Key_bisect_eq Let_def)
next
  have b7: "bit (7 :: uint64_t) 0" "bit (7 :: uint64_t) 1" "bit (7 :: uint64_t) 2"
    by simp_all
  show "Key_bisect \<lparr>Key_b = BOX3D_ctor 0 0 0 10 10 (10::real),
                  Key_d = 0, Key_x = 0, Key_y = 0, Key_z = 0\<rparr> 7
       = Inr \<lparr>Key_b = BOX3D_ctor 5 5 5 10 10 10, Key_d = 1, Key_x = 1, Key_y = 1, Key_z = 1\<rparr>"
    by (simp add: Key_bisect_eq BOX3D_ctor_def b7)
next
  show "Key_bisect \<lparr>Key_b = BOX3D_ctor 0 0 0 10 10 (10::real),
                  Key_d = 0, Key_x = 0, Key_y = 0, Key_z = 0\<rparr> 0
       = Inr \<lparr>Key_b = BOX3D_ctor 0 0 0 5 5 5, Key_d = 1, Key_x = 0, Key_y = 0, Key_z = 0\<rparr>"
    by (simp add: Key_bisect_eq BOX3D_ctor_def)
qed

text \<open>
  The direction 5 (bits 0 and 2) on a key at depth 3: the child is on the upper side in
  \<open>x\<close> and \<open>z\<close> and on the lower side in \<open>y\<close>.
\<close>

theorem Key_bisect_child_witness:
  "Key_bisect \<lparr>Key_b = BOX3D_ctor 0 0 0 8 4 (2::real),
               Key_d = 3, Key_x = 5, Key_y = 6, Key_z = 7\<rparr> 5
     = Inr \<lparr>Key_b = BOX3D_ctor 4 0 1 8 2 2, Key_d = 4, Key_x = 11, Key_y = 12, Key_z = 15\<rparr>"
proof -
  have b5: "bit (5 :: uint64_t) 0" "\<not> bit (5 :: uint64_t) 1" "bit (5 :: uint64_t) 2"
    by simp_all
  obtain c where c: "Key_bisect \<lparr>Key_b = BOX3D_ctor 0 0 0 8 4 (2::real),
               Key_d = 3, Key_x = 5, Key_y = 6, Key_z = 7\<rparr> 5 = Inr c"
    using Key_bisect_child [of "\<lparr>Key_b = BOX3D_ctor 0 0 0 8 4 (2::real),
               Key_d = 3, Key_x = 5, Key_y = 6, Key_z = 7\<rparr>" 5]
    by (auto split: sum.splits)
  have "c = \<lparr>Key_b = BOX3D_ctor 4 0 1 8 2 2, Key_d = 4, Key_x = 11, Key_y = 12, Key_z = 15\<rparr>"
    using Key_bisect_child [of "\<lparr>Key_b = BOX3D_ctor 0 0 0 8 4 (2::real),
               Key_d = 3, Key_x = 5, Key_y = 6, Key_z = 7\<rparr>" 5] c b5
    by (cases c, cases "Key_b c") (simp add: BOX3D_ctor_def Let_def)
  with c show ?thesis by simp
qed


subsection \<open>getType, toBox3d and EptInfo\<close>


lemma bindE_Inr_iff: "(bindE m f = Inr v) = (\<exists>a. m = Inr a \<and> f a = Inr v)"
  by (cases m) (simp_all add: bindE_def)

lemma bindE_Inl_iff: "(bindE m f = Inl e) = (m = Inl e \<or> (\<exists>a. m = Inr a \<and> f a = Inl e))"
  by (cases m) (simp_all add: bindE_def)

lemma toBox3d_ept_error:
  "toBox3d ops b = Inl (EptError err) \<Longrightarrow> err = InvalidBounds \<and> (\<not> isArray b \<or> Json_size b \<noteq> 6)"
proof -
  have at: "Json_at v i \<noteq> Inl (EptError x)" for v :: "'a Json_Value" and i x
    by (cases v) simp_all
  have dbl: "asDouble ops v \<noteq> Inl (EptError x)" for v :: "'a Json_Value" and x
    by (cases v) simp_all
  assume "toBox3d ops b = Inl (EptError err)"
  then show ?thesis
    by (auto simp add: toBox3d_def bindE_Inl_iff at dbl split: if_splits)
qed

lemma toBox3d_bad: "\<not> isArray b \<or> Json_size b \<noteq> 6 \<Longrightarrow> toBox3d ops b = Inl (EptError InvalidBounds)"
  by (auto simp add: toBox3d_def)

lemma toBox3d_ok: "toBox3d ops b = Inr box \<Longrightarrow> isArray b \<and> Json_size b = 6"
  by (auto simp add: toBox3d_def split: if_splits)

lemma Json_find_no_ept: "Json_find v key \<noteq> Inl (EptError x)"
  by (cases v) simp_all

lemma Json_member_no_ept: "Json_member v key \<noteq> Inl (EptError x)"
  by (simp add: Json_member_def bindE_Inl_iff Json_find_no_ept)

lemma isMember_no_ept: "isMember v key \<noteq> Inl (EptError x)"
  by (simp add: isMember_def bindE_Inl_iff Json_find_no_ept)

lemma asString_no_ept: "asString ops v \<noteq> Inl (EptError x)"
  by (cases v) simp_all

lemma asUInt64_no_ept: "asUInt64 ops v \<noteq> Inl (EptError x)"
  by (cases v) (simp_all split: option.splits)

lemma resolve_srs_no_ept: "resolve_srs ops srs \<noteq> Inl (EptError x)"
  by (auto simp add: resolve_srs_def bindE_Inl_iff Json_member_no_ept isMember_no_ept
      asString_no_ept split: if_splits)

lemma EptInfo_ctor_ept_error:
  assumes "EptInfo_ctor ops info = Inl (EptError err)"
  shows "(err = InvalidBounds
            \<and> (\<exists>b. Json_member info ''bounds'' = Inr b \<and> (\<not> isArray b \<or> Json_size b \<noteq> 6)))
         \<or> (\<exists>dt. err = UnrecognizedDataType dt \<and> dt \<noteq> ''laszip'' \<and> dt \<noteq> ''binary''
                \<and> bindE (Json_member info ''dataType'') (asString ops) = Inr dt)"
  using assms toBox3d_ept_error [of ops _ err]
  by (auto simp add: EptInfo_ctor_def bindE_Inl_iff Json_member_no_ept asUInt64_no_ept
      asString_no_ept resolve_srs_no_ept split: if_splits)

lemma EptInfo_ctor_Inr:
  assumes "EptInfo_ctor ops info = Inr e"
  shows "m_info e = info
     \<and> (\<exists>b. Json_member info ''bounds'' = Inr b \<and> isArray b \<and> Json_size b = 6
             \<and> toBox3d ops b = Inr (m_bounds e))
     \<and> (bindE (Json_member info ''dataType'') (asString ops) = Inr ''laszip''
           \<and> m_dataType e = Laszip
         \<or> bindE (Json_member info ''dataType'') (asString ops) = Inr ''binary''
           \<and> m_dataType e = Binary)"
  using assms toBox3d_ok [of ops]
  by (auto simp add: EptInfo_ctor_def bindE_Inr_iff split: if_splits)

lemma EptInfo_ctor_bad_bounds:
  assumes "Json_member info ''bounds'' = Inr b" and "\<not> isArray b \<or> Json_size b \<noteq> 6"
  shows "EptInfo_ctor ops info = Inl (EptError InvalidBounds)"
  using assms by (simp add: EptInfo_ctor_def bindE_def toBox3d_bad)

lemma EptInfo_ctor_bad_dataType:
  assumes "bindE (Json_member info ''dataType'') (asString ops) = Inr dt"
    and "dt \<noteq> ''laszip''" and "dt \<noteq> ''binary''"
  shows "isl (EptInfo_ctor ops info)"
proof (cases "EptInfo_ctor ops info")
  case (Inl e)
  then show ?thesis by simp
next
  case (Inr e)
  from EptInfo_ctor_Inr [OF this] assms show ?thesis
    by auto
qed

lemma getType_scale: "isMember dimension ''scale'' = Inr True \<Longrightarrow> getType ops dimension = Inr Type_Double"
  by (simp add: getType_def bindE_def)

lemma getType_table:
  assumes "isMember dimension ''scale'' = Inr False"
    and "bindE (Json_member dimension ''type'') (asString ops) = Inr kind"
    and "bindE (Json_member dimension ''size'') (asUInt64 ops) = Inr sz"
  shows "\<exists>T. getType ops dimension = Inr T
           \<and> (T = Type_None) = (\<not> recognized kind sz)
           \<and> (recognized kind sz \<longrightarrow> Dimension_size T = sz)"
proof -
  have g: "getType ops dimension =
      Inr (if kind = ''signed'' then
                  (if sz = 1 then Type_Signed8
                   else if sz = 2 then Type_Signed16
                   else if sz = 4 then Type_Signed32
                   else if sz = 8 then Type_Signed64
                   else Type_None)
                else if kind = ''unsigned'' then
                  (if sz = 1 then Type_Unsigned8
                   else if sz = 2 then Type_Unsigned16
                   else if sz = 4 then Type_Unsigned32
                   else if sz = 8 then Type_Unsigned64
                   else Type_None)
                else if kind = ''float'' then
                  (if sz = 4 then Type_Float
                   else if sz = 8 then Type_Double
                   else Type_None)
                else Type_None)"
    unfolding getType_def assms by (simp add: bindE_def)
  show ?thesis
    unfolding g by (simp add: recognized_def)
qed

lemma Json_member_append_other:
  "key \<noteq> k \<Longrightarrow> Json_member (objectValue (ms @ [(k, v)])) key = Json_member (objectValue ms) key"
  by (simp add: Json_member_def map_add_def split: option.splits)

lemma EptInfo_ctor_schema:
  "isl (EptInfo_ctor ops (objectValue (ms @ [(''schema'', sch)])))
     = isl (EptInfo_ctor ops (objectValue ms))"
proof -
  have m: "Json_member (objectValue (ms @ [(''schema'', sch)])) ''bounds''
             = Json_member (objectValue ms) ''bounds''"
    "Json_member (objectValue (ms @ [(''schema'', sch)])) ''points''
             = Json_member (objectValue ms) ''points''"
    "Json_member (objectValue (ms @ [(''schema'', sch)])) ''span''
             = Json_member (objectValue ms) ''span''"
    "Json_member (objectValue (ms @ [(''schema'', sch)])) ''srs''
             = Json_member (objectValue ms) ''srs''"
    "Json_member (objectValue (ms @ [(''schema'', sch)])) ''dataType''
             = Json_member (objectValue ms) ''dataType''"
    by (simp_all add: Json_member_append_other)
  show ?thesis
    unfolding EptInfo_ctor_def m
    by (simp add: bindE_def split: sum.splits)
qed

lemma getType_pairs:
  assumes "isMember dimension ''scale'' = Inr False"
    and "bindE (Json_member dimension ''type'') (asString ops) = Inr kind"
    and "bindE (Json_member dimension ''size'') (asUInt64 ops) = Inr sz"
  shows "
        (kind = ''signed'' \<and> sz = 1 \<longrightarrow> getType ops dimension = Inr Type_Signed8)
        \<and> (kind = ''signed'' \<and> sz = 2 \<longrightarrow> getType ops dimension = Inr Type_Signed16)
        \<and> (kind = ''signed'' \<and> sz = 4 \<longrightarrow> getType ops dimension = Inr Type_Signed32)
        \<and> (kind = ''signed'' \<and> sz = 8 \<longrightarrow> getType ops dimension = Inr Type_Signed64)
        \<and> (kind = ''unsigned'' \<and> sz = 1 \<longrightarrow> getType ops dimension = Inr Type_Unsigned8)
        \<and> (kind = ''unsigned'' \<and> sz = 2 \<longrightarrow> getType ops dimension = Inr Type_Unsigned16)
        \<and> (kind = ''unsigned'' \<and> sz = 4 \<longrightarrow> getType ops dimension = Inr Type_Unsigned32)
        \<and> (kind = ''unsigned'' \<and> sz = 8 \<longrightarrow> getType ops dimension = Inr Type_Unsigned64)
        \<and> (kind = ''float'' \<and> sz = 4 \<longrightarrow> getType ops dimension = Inr Type_Float)
        \<and> (kind = ''float'' \<and> sz = 8 \<longrightarrow> getType ops dimension = Inr Type_Double)
        \<and> (\<not> recognized kind sz \<longrightarrow> getType ops dimension = Inr Type_None)"
proof -
  have g: "getType ops dimension =
      Inr (if kind = ''signed'' then
                  (if sz = 1 then Type_Signed8
                   else if sz = 2 then Type_Signed16
                   else if sz = 4 then Type_Signed32
                   else if sz = 8 then Type_Signed64
                   else Type_None)
                else if kind = ''unsigned'' then
                  (if sz = 1 then Type_Unsigned8
                   else if sz = 2 then Type_Unsigned16
                   else if sz = 4 then Type_Unsigned32
                   else if sz = 8 then Type_Unsigned64
                   else Type_None)
                else if kind = ''float'' then
                  (if sz = 4 then Type_Float
                   else if sz = 8 then Type_Double
                   else Type_None)
                else Type_None)"
    unfolding getType_def assms by (simp add: bindE_def)
  show ?thesis
    unfolding g by (simp add: recognized_def)
qed

text \<open>
  C3, as the code has it. Parsing the metadata is the constructor of \<^verbatim>\<open>EptInfo\<close>.
  \<^item> It throws the \<^verbatim>\<open>ept_error\<close> \<^verbatim>\<open>"Invalid bounds specification"\<close> whenever the member
    \<^verbatim>\<open>bounds\<close> is not an array of length 6.
  \<^item> It never returns when the text of \<^verbatim>\<open>dataType\<close> is neither \<^verbatim>\<open>laszip\<close> nor \<^verbatim>\<open>binary\<close>,
    and the failure is the \<^verbatim>\<open>ept_error\<close> \<^verbatim>\<open>"Unrecognized EPT dataType"\<close> whenever bounds,
    points, span and srs have been read without failure.
  \<^item> These two are the only \<^verbatim>\<open>ept_error\<close>s of the constructor, each only in its case.
  \<^item> A field descriptor is not checked: whether the constructor fails does not depend
    on the member \<^verbatim>\<open>schema\<close>, and \<^verbatim>\<open>getType\<close> does not throw for a pair of kind and size
    that is not recognised. For a descriptor with a \<^verbatim>\<open>scale\<close> it returns \<^verbatim>\<open>Double\<close>; for one
    without, the type of the pair (of that size) when the pair is recognised and
    \<^verbatim>\<open>None\<close> exactly when it is not.
  \<^item> The type of a recognised pair is the matching one: \<^verbatim>\<open>Signed8\<close>, \<^verbatim>\<open>Signed16\<close>,
    \<^verbatim>\<open>Signed32\<close>, \<^verbatim>\<open>Signed64\<close> for a signed integer of 1, 2, 4, 8 bytes, \<^verbatim>\<open>Unsigned8\<close>,
    \<^verbatim>\<open>Unsigned16\<close>, \<^verbatim>\<open>Unsigned32\<close>, \<^verbatim>\<open>Unsigned64\<close> for an unsigned one, \<^verbatim>\<open>Float\<close> for a
    float of 4 bytes and \<^verbatim>\<open>Double\<close> for one of 8.
\<close>

theorem EptInfo_ctor_malformed:
  "(Json_member info ''bounds'' = Inr b \<and> (\<not> isArray b \<or> Json_size b \<noteq> 6) \<longrightarrow>
      EptInfo_ctor ops info = Inl (EptError InvalidBounds))
   \<and> (bindE (Json_member info ''dataType'') (asString ops) = Inr dt
        \<and> dt \<noteq> ''laszip'' \<and> dt \<noteq> ''binary'' \<longrightarrow>
      isl (EptInfo_ctor ops info)
      \<and> (bindE (Json_member info ''bounds'') (toBox3d ops) = Inr bb
          \<and> bindE (Json_member info ''points'') (asUInt64 ops) = Inr np
          \<and> bindE (Json_member info ''span'') (asUInt64 ops) = Inr sp
          \<and> bindE (Json_member info ''srs'') (resolve_srs ops) = Inr sr \<longrightarrow>
          EptInfo_ctor ops info = Inl (EptError (UnrecognizedDataType dt))))
   \<and> (EptInfo_ctor ops info = Inl (EptError err) \<longrightarrow>
        (err = InvalidBounds
           \<and> (\<exists>b. Json_member info ''bounds'' = Inr b \<and> (\<not> isArray b \<or> Json_size b \<noteq> 6)))
        \<or> (\<exists>dt. err = UnrecognizedDataType dt \<and> dt \<noteq> ''laszip'' \<and> dt \<noteq> ''binary''
               \<and> bindE (Json_member info ''dataType'') (asString ops) = Inr dt))
   \<and> isl (EptInfo_ctor ops (objectValue (ms @ [(''schema'', sch)])))
       = isl (EptInfo_ctor ops (objectValue ms))
   \<and> (isMember dimension ''scale'' = Inr True \<longrightarrow> getType ops dimension = Inr Type_Double)
   \<and> (isMember dimension ''scale'' = Inr False
        \<and> bindE (Json_member dimension ''type'') (asString ops) = Inr kind
        \<and> bindE (Json_member dimension ''size'') (asUInt64 ops) = Inr sz \<longrightarrow>
      (\<exists>T. getType ops dimension = Inr T
            \<and> (T = Type_None) = (\<not> recognized kind sz)
            \<and> (recognized kind sz \<longrightarrow> Dimension_size T = sz)))
   \<and> (isMember dimension ''scale'' = Inr False
        \<and> bindE (Json_member dimension ''type'') (asString ops) = Inr kind
        \<and> bindE (Json_member dimension ''size'') (asUInt64 ops) = Inr sz \<longrightarrow>
        (kind = ''signed'' \<and> sz = 1 \<longrightarrow> getType ops dimension = Inr Type_Signed8)
        \<and> (kind = ''signed'' \<and> sz = 2 \<longrightarrow> getType ops dimension = Inr Type_Signed16)
        \<and> (kind = ''signed'' \<and> sz = 4 \<longrightarrow> getType ops dimension = Inr Type_Signed32)
        \<and> (kind = ''signed'' \<and> sz = 8 \<longrightarrow> getType ops dimension = Inr Type_Signed64)
        \<and> (kind = ''unsigned'' \<and> sz = 1 \<longrightarrow> getType ops dimension = Inr Type_Unsigned8)
        \<and> (kind = ''unsigned'' \<and> sz = 2 \<longrightarrow> getType ops dimension = Inr Type_Unsigned16)
        \<and> (kind = ''unsigned'' \<and> sz = 4 \<longrightarrow> getType ops dimension = Inr Type_Unsigned32)
        \<and> (kind = ''unsigned'' \<and> sz = 8 \<longrightarrow> getType ops dimension = Inr Type_Unsigned64)
        \<and> (kind = ''float'' \<and> sz = 4 \<longrightarrow> getType ops dimension = Inr Type_Float)
        \<and> (kind = ''float'' \<and> sz = 8 \<longrightarrow> getType ops dimension = Inr Type_Double)
        \<and> (\<not> recognized kind sz \<longrightarrow> getType ops dimension = Inr Type_None))"
proof -
  have old: "(Json_member info ''bounds'' = Inr b \<and> (\<not> isArray b \<or> Json_size b \<noteq> 6) \<longrightarrow>
      EptInfo_ctor ops info = Inl (EptError InvalidBounds))
   \<and> (bindE (Json_member info ''dataType'') (asString ops) = Inr dt
        \<and> dt \<noteq> ''laszip'' \<and> dt \<noteq> ''binary'' \<longrightarrow>
      isl (EptInfo_ctor ops info)
      \<and> (bindE (Json_member info ''bounds'') (toBox3d ops) = Inr bb
          \<and> bindE (Json_member info ''points'') (asUInt64 ops) = Inr np
          \<and> bindE (Json_member info ''span'') (asUInt64 ops) = Inr sp
          \<and> bindE (Json_member info ''srs'') (resolve_srs ops) = Inr sr \<longrightarrow>
          EptInfo_ctor ops info = Inl (EptError (UnrecognizedDataType dt))))
   \<and> (EptInfo_ctor ops info = Inl (EptError err) \<longrightarrow>
        (err = InvalidBounds
           \<and> (\<exists>b. Json_member info ''bounds'' = Inr b \<and> (\<not> isArray b \<or> Json_size b \<noteq> 6)))
        \<or> (\<exists>dt. err = UnrecognizedDataType dt \<and> dt \<noteq> ''laszip'' \<and> dt \<noteq> ''binary''
               \<and> bindE (Json_member info ''dataType'') (asString ops) = Inr dt))
   \<and> isl (EptInfo_ctor ops (objectValue (ms @ [(''schema'', sch)])))
       = isl (EptInfo_ctor ops (objectValue ms))
   \<and> (isMember dimension ''scale'' = Inr True \<longrightarrow> getType ops dimension = Inr Type_Double)
   \<and> (isMember dimension ''scale'' = Inr False
        \<and> bindE (Json_member dimension ''type'') (asString ops) = Inr kind
        \<and> bindE (Json_member dimension ''size'') (asUInt64 ops) = Inr sz \<longrightarrow>
      (\<exists>T. getType ops dimension = Inr T
            \<and> (T = Type_None) = (\<not> recognized kind sz)
            \<and> (recognized kind sz \<longrightarrow> Dimension_size T = sz)))"
  proof (intro conjI impI)
    assume "Json_member info ''bounds'' = Inr b \<and> (\<not> isArray b \<or> Json_size b \<noteq> 6)"
    then show "EptInfo_ctor ops info = Inl (EptError InvalidBounds)"
      using EptInfo_ctor_bad_bounds by blast
  next
    assume "bindE (Json_member info ''dataType'') (asString ops) = Inr dt
          \<and> dt \<noteq> ''laszip'' \<and> dt \<noteq> ''binary''"
    then show "isl (EptInfo_ctor ops info)"
      using EptInfo_ctor_bad_dataType by blast
  next
    assume dt: "bindE (Json_member info ''dataType'') (asString ops) = Inr dt
          \<and> dt \<noteq> ''laszip'' \<and> dt \<noteq> ''binary''"
      and rd: "bindE (Json_member info ''bounds'') (toBox3d ops) = Inr bb
            \<and> bindE (Json_member info ''points'') (asUInt64 ops) = Inr np
            \<and> bindE (Json_member info ''span'') (asUInt64 ops) = Inr sp
            \<and> bindE (Json_member info ''srs'') (resolve_srs ops) = Inr sr"
    show "EptInfo_ctor ops info = Inl (EptError (UnrecognizedDataType dt))"
      unfolding EptInfo_ctor_def using dt rd by (simp add: bindE_def)
  next
    assume "EptInfo_ctor ops info = Inl (EptError err)"
    then show "(err = InvalidBounds
             \<and> (\<exists>b. Json_member info ''bounds'' = Inr b \<and> (\<not> isArray b \<or> Json_size b \<noteq> 6)))
          \<or> (\<exists>dt. err = UnrecognizedDataType dt \<and> dt \<noteq> ''laszip'' \<and> dt \<noteq> ''binary''
                 \<and> bindE (Json_member info ''dataType'') (asString ops) = Inr dt)"
      by (rule EptInfo_ctor_ept_error)
  next
    show "isl (EptInfo_ctor ops (objectValue (ms @ [(''schema'', sch)])))
         = isl (EptInfo_ctor ops (objectValue ms))"
      by (rule EptInfo_ctor_schema)
  next
    assume "isMember dimension ''scale'' = Inr True"
    then show "getType ops dimension = Inr Type_Double"
      by (rule getType_scale)
  next
    assume "isMember dimension ''scale'' = Inr False
          \<and> bindE (Json_member dimension ''type'') (asString ops) = Inr kind
          \<and> bindE (Json_member dimension ''size'') (asUInt64 ops) = Inr sz"
    then show "\<exists>T. getType ops dimension = Inr T
              \<and> (T = Type_None) = (\<not> recognized kind sz)
              \<and> (recognized kind sz \<longrightarrow> Dimension_size T = sz)"
      using getType_table by blast
  qed
  have new: "isMember dimension ''scale'' = Inr False
        \<and> bindE (Json_member dimension ''type'') (asString ops) = Inr kind
        \<and> bindE (Json_member dimension ''size'') (asUInt64 ops) = Inr sz \<longrightarrow>
        (kind = ''signed'' \<and> sz = 1 \<longrightarrow> getType ops dimension = Inr Type_Signed8)
        \<and> (kind = ''signed'' \<and> sz = 2 \<longrightarrow> getType ops dimension = Inr Type_Signed16)
        \<and> (kind = ''signed'' \<and> sz = 4 \<longrightarrow> getType ops dimension = Inr Type_Signed32)
        \<and> (kind = ''signed'' \<and> sz = 8 \<longrightarrow> getType ops dimension = Inr Type_Signed64)
        \<and> (kind = ''unsigned'' \<and> sz = 1 \<longrightarrow> getType ops dimension = Inr Type_Unsigned8)
        \<and> (kind = ''unsigned'' \<and> sz = 2 \<longrightarrow> getType ops dimension = Inr Type_Unsigned16)
        \<and> (kind = ''unsigned'' \<and> sz = 4 \<longrightarrow> getType ops dimension = Inr Type_Unsigned32)
        \<and> (kind = ''unsigned'' \<and> sz = 8 \<longrightarrow> getType ops dimension = Inr Type_Unsigned64)
        \<and> (kind = ''float'' \<and> sz = 4 \<longrightarrow> getType ops dimension = Inr Type_Float)
        \<and> (kind = ''float'' \<and> sz = 8 \<longrightarrow> getType ops dimension = Inr Type_Double)
        \<and> (\<not> recognized kind sz \<longrightarrow> getType ops dimension = Inr Type_None)"
  proof (rule impI, elim conjE)
    assume "isMember dimension ''scale'' = Inr False"
      and "bindE (Json_member dimension ''type'') (asString ops) = Inr kind"
      and "bindE (Json_member dimension ''size'') (asUInt64 ops) = Inr sz"
    then show "
        (kind = ''signed'' \<and> sz = 1 \<longrightarrow> getType ops dimension = Inr Type_Signed8)
        \<and> (kind = ''signed'' \<and> sz = 2 \<longrightarrow> getType ops dimension = Inr Type_Signed16)
        \<and> (kind = ''signed'' \<and> sz = 4 \<longrightarrow> getType ops dimension = Inr Type_Signed32)
        \<and> (kind = ''signed'' \<and> sz = 8 \<longrightarrow> getType ops dimension = Inr Type_Signed64)
        \<and> (kind = ''unsigned'' \<and> sz = 1 \<longrightarrow> getType ops dimension = Inr Type_Unsigned8)
        \<and> (kind = ''unsigned'' \<and> sz = 2 \<longrightarrow> getType ops dimension = Inr Type_Unsigned16)
        \<and> (kind = ''unsigned'' \<and> sz = 4 \<longrightarrow> getType ops dimension = Inr Type_Unsigned32)
        \<and> (kind = ''unsigned'' \<and> sz = 8 \<longrightarrow> getType ops dimension = Inr Type_Unsigned64)
        \<and> (kind = ''float'' \<and> sz = 4 \<longrightarrow> getType ops dimension = Inr Type_Float)
        \<and> (kind = ''float'' \<and> sz = 8 \<longrightarrow> getType ops dimension = Inr Type_Double)
        \<and> (\<not> recognized kind sz \<longrightarrow> getType ops dimension = Inr Type_None)"
      by (rule getType_pairs)
  qed
  from old new show ?thesis
    by (elim conjE, intro conjI) assumption+
qed

theorem EptInfo_ctor_malformed_witness:
  "EptInfo_ctor real_ops info_five_bounds = Inl (EptError InvalidBounds)
   \<and> isl (EptInfo_ctor real_ops info_xyz)
   \<and> EptInfo_ctor real_ops info_xyz = Inl (EptError (UnrecognizedDataType ''xyz''))
   \<and> \<not> isl (EptInfo_ctor real_ops info_signed3)
   \<and> isMember dim_scaled ''scale'' = Inr True
   \<and> getType real_ops dim_scaled = Inr Type_Double
   \<and> isMember dim_signed3 ''scale'' = Inr False
   \<and> \<not> recognized ''signed'' 3
   \<and> getType real_ops dim_signed3 = Inr Type_None
   \<and> getType real_ops (dim_plain ''signed'' 1) = Inr Type_Signed8
   \<and> getType real_ops (dim_plain ''signed'' 2) = Inr Type_Signed16
   \<and> getType real_ops (dim_plain ''signed'' 4) = Inr Type_Signed32
   \<and> getType real_ops (dim_plain ''signed'' 8) = Inr Type_Signed64
   \<and> getType real_ops (dim_plain ''unsigned'' 1) = Inr Type_Unsigned8
   \<and> getType real_ops (dim_plain ''unsigned'' 2) = Inr Type_Unsigned16
   \<and> getType real_ops (dim_plain ''unsigned'' 4) = Inr Type_Unsigned32
   \<and> getType real_ops (dim_plain ''unsigned'' 8) = Inr Type_Unsigned64
   \<and> getType real_ops (dim_plain ''float'' 4) = Inr Type_Float
   \<and> getType real_ops (dim_plain ''float'' 8) = Inr Type_Double
   \<and> getType real_ops (dim_plain ''float'' 2) = Inr Type_None
   \<and> getType real_ops (dim_plain ''double'' 8) = Inr Type_None"
proof -
  let ?b5 = "arrayValue [intValue 0, intValue 0, intValue 0, intValue 10, intValue (10::int)]
               :: real Json_Value"
  have h1: "Json_member info_five_bounds ''bounds'' = Inr ?b5
      \<and> (\<not> isArray ?b5 \<or> Json_size ?b5 \<noteq> 6)"
    by (simp add: info_five_bounds_def Json_member_def bindE_def)
  have w1: "EptInfo_ctor real_ops info_five_bounds = Inl (EptError InvalidBounds)"
    using EptInfo_ctor_malformed [where info = info_five_bounds and b = "?b5"
        and ops = real_ops, THEN conjunct1] h1
    by blast
  have h2: "bindE (Json_member info_xyz ''dataType'') (asString real_ops) = Inr ''xyz''
      \<and> ''xyz'' \<noteq> ''laszip'' \<and> ''xyz'' \<noteq> ''binary''"
    by (simp add: info_xyz_def info_base_def Json_member_def bindE_def)
  have h2': "bindE (Json_member info_xyz ''bounds'') (toBox3d real_ops)
        = Inr (BOX3D_ctor 0 0 0 10 10 10)
      \<and> bindE (Json_member info_xyz ''points'') (asUInt64 real_ops) = Inr 100
      \<and> bindE (Json_member info_xyz ''span'') (asUInt64 real_ops) = Inr 128
      \<and> bindE (Json_member info_xyz ''srs'') (resolve_srs real_ops) = Inr []"
    by (simp add: info_xyz_def info_base_def Json_member_def isMember_def bindE_def toBox3d_def
        resolve_srs_def real_ops_def)
  note c2 = EptInfo_ctor_malformed [where info = info_xyz and dt = "''xyz''" and ops = real_ops
      and bb = "BOX3D_ctor 0 0 0 10 10 10" and np = 100 and sp = 128 and sr = "[]",
      THEN conjunct2, THEN conjunct1, rule_format, OF h2]
  have w2: "isl (EptInfo_ctor real_ops info_xyz)"
    using c2 by blast
  have w2': "EptInfo_ctor real_ops info_xyz = Inl (EptError (UnrecognizedDataType ''xyz''))"
    using c2 h2' by blast
  have w3: "UnrecognizedDataType ''xyz'' \<noteq> InvalidBounds"
    using EptInfo_ctor_malformed [where info = info_xyz and ops = real_ops
        and err = "UnrecognizedDataType ''xyz''",
        THEN conjunct2, THEN conjunct2, THEN conjunct1] w2'
    by simp
  have ok: "\<not> isl (EptInfo_ctor real_ops
      (objectValue (info_base @ [(''dataType'', stringValue ''binary'')])))"
    by (simp add: EptInfo_ctor_def resolve_srs_def toBox3d_def Json_member_def isMember_def
        bindE_def info_base_def real_ops_def)
  have w4: "\<not> isl (EptInfo_ctor real_ops info_signed3)"
    using EptInfo_ctor_malformed [where ops = real_ops
        and ms = "info_base @ [(''dataType'', stringValue ''binary'')]"
        and sch = "arrayValue [dim_signed3]",
        THEN conjunct2, THEN conjunct2, THEN conjunct2, THEN conjunct1] ok
    unfolding info_signed3_def by simp
  have h5: "isMember dim_scaled ''scale'' = Inr True"
    by (simp add: dim_scaled_def isMember_def bindE_def)
  have w5: "getType real_ops dim_scaled = Inr Type_Double"
    using EptInfo_ctor_malformed [where ops = real_ops and dimension = dim_scaled,
        THEN conjunct2, THEN conjunct2, THEN conjunct2, THEN conjunct2, THEN conjunct1] h5
    by blast
  have h6: "isMember dim_signed3 ''scale'' = Inr False
      \<and> bindE (Json_member dim_signed3 ''type'') (asString real_ops) = Inr ''signed''
      \<and> bindE (Json_member dim_signed3 ''size'') (asUInt64 real_ops) = Inr 3"
    by (simp add: dim_signed3_def isMember_def Json_member_def bindE_def)
  have nr: "\<not> recognized ''signed'' 3"
    by (simp add: recognized_def)
  have w6: "getType real_ops dim_signed3 = Inr Type_None"
    using EptInfo_ctor_malformed [where ops = real_ops and dimension = dim_signed3
        and kind = "''signed''" and sz = 3,
        THEN conjunct2, THEN conjunct2, THEN conjunct2, THEN conjunct2, THEN conjunct2,
        THEN conjunct1] h6 nr
    by auto
  have t0: "getType real_ops (dim_plain ''signed'' 1) = Inr Type_Signed8"
  proof -
    have h: "isMember (dim_plain ''signed'' 1) ''scale'' = Inr False
        \<and> bindE (Json_member (dim_plain ''signed'' 1) ''type'') (asString real_ops) = Inr ''signed''
        \<and> bindE (Json_member (dim_plain ''signed'' 1) ''size'') (asUInt64 real_ops) = Inr 1"
      by (simp add: dim_plain_def isMember_def Json_member_def bindE_def)
    from EptInfo_ctor_malformed [where ops = real_ops and dimension = "dim_plain ''signed'' 1"
        and kind = "''signed''" and sz = 1,
        THEN conjunct2, THEN conjunct2, THEN conjunct2, THEN conjunct2, THEN conjunct2,
        THEN conjunct2, rule_format, OF h]
    show ?thesis
      by (simp add: recognized_def)
  qed
  have t1: "getType real_ops (dim_plain ''signed'' 2) = Inr Type_Signed16"
  proof -
    have h: "isMember (dim_plain ''signed'' 2) ''scale'' = Inr False
        \<and> bindE (Json_member (dim_plain ''signed'' 2) ''type'') (asString real_ops) = Inr ''signed''
        \<and> bindE (Json_member (dim_plain ''signed'' 2) ''size'') (asUInt64 real_ops) = Inr 2"
      by (simp add: dim_plain_def isMember_def Json_member_def bindE_def)
    from EptInfo_ctor_malformed [where ops = real_ops and dimension = "dim_plain ''signed'' 2"
        and kind = "''signed''" and sz = 2,
        THEN conjunct2, THEN conjunct2, THEN conjunct2, THEN conjunct2, THEN conjunct2,
        THEN conjunct2, rule_format, OF h]
    show ?thesis
      by (simp add: recognized_def)
  qed
  have t2: "getType real_ops (dim_plain ''signed'' 4) = Inr Type_Signed32"
  proof -
    have h: "isMember (dim_plain ''signed'' 4) ''scale'' = Inr False
        \<and> bindE (Json_member (dim_plain ''signed'' 4) ''type'') (asString real_ops) = Inr ''signed''
        \<and> bindE (Json_member (dim_plain ''signed'' 4) ''size'') (asUInt64 real_ops) = Inr 4"
      by (simp add: dim_plain_def isMember_def Json_member_def bindE_def)
    from EptInfo_ctor_malformed [where ops = real_ops and dimension = "dim_plain ''signed'' 4"
        and kind = "''signed''" and sz = 4,
        THEN conjunct2, THEN conjunct2, THEN conjunct2, THEN conjunct2, THEN conjunct2,
        THEN conjunct2, rule_format, OF h]
    show ?thesis
      by (simp add: recognized_def)
  qed
  have t3: "getType real_ops (dim_plain ''signed'' 8) = Inr Type_Signed64"
  proof -
    have h: "isMember (dim_plain ''signed'' 8) ''scale'' = Inr False
        \<and> bindE (Json_member (dim_plain ''signed'' 8) ''type'') (asString real_ops) = Inr ''signed''
        \<and> bindE (Json_member (dim_plain ''signed'' 8) ''size'') (asUInt64 real_ops) = Inr 8"
      by (simp add: dim_plain_def isMember_def Json_member_def bindE_def)
    from EptInfo_ctor_malformed [where ops = real_ops and dimension = "dim_plain ''signed'' 8"
        and kind = "''signed''" and sz = 8,
        THEN conjunct2, THEN conjunct2, THEN conjunct2, THEN conjunct2, THEN conjunct2,
        THEN conjunct2, rule_format, OF h]
    show ?thesis
      by (simp add: recognized_def)
  qed
  have t4: "getType real_ops (dim_plain ''unsigned'' 1) = Inr Type_Unsigned8"
  proof -
    have h: "isMember (dim_plain ''unsigned'' 1) ''scale'' = Inr False
        \<and> bindE (Json_member (dim_plain ''unsigned'' 1) ''type'') (asString real_ops) = Inr ''unsigned''
        \<and> bindE (Json_member (dim_plain ''unsigned'' 1) ''size'') (asUInt64 real_ops) = Inr 1"
      by (simp add: dim_plain_def isMember_def Json_member_def bindE_def)
    from EptInfo_ctor_malformed [where ops = real_ops and dimension = "dim_plain ''unsigned'' 1"
        and kind = "''unsigned''" and sz = 1,
        THEN conjunct2, THEN conjunct2, THEN conjunct2, THEN conjunct2, THEN conjunct2,
        THEN conjunct2, rule_format, OF h]
    show ?thesis
      by (simp add: recognized_def)
  qed
  have t5: "getType real_ops (dim_plain ''unsigned'' 2) = Inr Type_Unsigned16"
  proof -
    have h: "isMember (dim_plain ''unsigned'' 2) ''scale'' = Inr False
        \<and> bindE (Json_member (dim_plain ''unsigned'' 2) ''type'') (asString real_ops) = Inr ''unsigned''
        \<and> bindE (Json_member (dim_plain ''unsigned'' 2) ''size'') (asUInt64 real_ops) = Inr 2"
      by (simp add: dim_plain_def isMember_def Json_member_def bindE_def)
    from EptInfo_ctor_malformed [where ops = real_ops and dimension = "dim_plain ''unsigned'' 2"
        and kind = "''unsigned''" and sz = 2,
        THEN conjunct2, THEN conjunct2, THEN conjunct2, THEN conjunct2, THEN conjunct2,
        THEN conjunct2, rule_format, OF h]
    show ?thesis
      by (simp add: recognized_def)
  qed
  have t6: "getType real_ops (dim_plain ''unsigned'' 4) = Inr Type_Unsigned32"
  proof -
    have h: "isMember (dim_plain ''unsigned'' 4) ''scale'' = Inr False
        \<and> bindE (Json_member (dim_plain ''unsigned'' 4) ''type'') (asString real_ops) = Inr ''unsigned''
        \<and> bindE (Json_member (dim_plain ''unsigned'' 4) ''size'') (asUInt64 real_ops) = Inr 4"
      by (simp add: dim_plain_def isMember_def Json_member_def bindE_def)
    from EptInfo_ctor_malformed [where ops = real_ops and dimension = "dim_plain ''unsigned'' 4"
        and kind = "''unsigned''" and sz = 4,
        THEN conjunct2, THEN conjunct2, THEN conjunct2, THEN conjunct2, THEN conjunct2,
        THEN conjunct2, rule_format, OF h]
    show ?thesis
      by (simp add: recognized_def)
  qed
  have t7: "getType real_ops (dim_plain ''unsigned'' 8) = Inr Type_Unsigned64"
  proof -
    have h: "isMember (dim_plain ''unsigned'' 8) ''scale'' = Inr False
        \<and> bindE (Json_member (dim_plain ''unsigned'' 8) ''type'') (asString real_ops) = Inr ''unsigned''
        \<and> bindE (Json_member (dim_plain ''unsigned'' 8) ''size'') (asUInt64 real_ops) = Inr 8"
      by (simp add: dim_plain_def isMember_def Json_member_def bindE_def)
    from EptInfo_ctor_malformed [where ops = real_ops and dimension = "dim_plain ''unsigned'' 8"
        and kind = "''unsigned''" and sz = 8,
        THEN conjunct2, THEN conjunct2, THEN conjunct2, THEN conjunct2, THEN conjunct2,
        THEN conjunct2, rule_format, OF h]
    show ?thesis
      by (simp add: recognized_def)
  qed
  have t8: "getType real_ops (dim_plain ''float'' 4) = Inr Type_Float"
  proof -
    have h: "isMember (dim_plain ''float'' 4) ''scale'' = Inr False
        \<and> bindE (Json_member (dim_plain ''float'' 4) ''type'') (asString real_ops) = Inr ''float''
        \<and> bindE (Json_member (dim_plain ''float'' 4) ''size'') (asUInt64 real_ops) = Inr 4"
      by (simp add: dim_plain_def isMember_def Json_member_def bindE_def)
    from EptInfo_ctor_malformed [where ops = real_ops and dimension = "dim_plain ''float'' 4"
        and kind = "''float''" and sz = 4,
        THEN conjunct2, THEN conjunct2, THEN conjunct2, THEN conjunct2, THEN conjunct2,
        THEN conjunct2, rule_format, OF h]
    show ?thesis
      by (simp add: recognized_def)
  qed
  have t9: "getType real_ops (dim_plain ''float'' 8) = Inr Type_Double"
  proof -
    have h: "isMember (dim_plain ''float'' 8) ''scale'' = Inr False
        \<and> bindE (Json_member (dim_plain ''float'' 8) ''type'') (asString real_ops) = Inr ''float''
        \<and> bindE (Json_member (dim_plain ''float'' 8) ''size'') (asUInt64 real_ops) = Inr 8"
      by (simp add: dim_plain_def isMember_def Json_member_def bindE_def)
    from EptInfo_ctor_malformed [where ops = real_ops and dimension = "dim_plain ''float'' 8"
        and kind = "''float''" and sz = 8,
        THEN conjunct2, THEN conjunct2, THEN conjunct2, THEN conjunct2, THEN conjunct2,
        THEN conjunct2, rule_format, OF h]
    show ?thesis
      by (simp add: recognized_def)
  qed
  have t10: "getType real_ops (dim_plain ''float'' 2) = Inr Type_None"
  proof -
    have h: "isMember (dim_plain ''float'' 2) ''scale'' = Inr False
        \<and> bindE (Json_member (dim_plain ''float'' 2) ''type'') (asString real_ops) = Inr ''float''
        \<and> bindE (Json_member (dim_plain ''float'' 2) ''size'') (asUInt64 real_ops) = Inr 2"
      by (simp add: dim_plain_def isMember_def Json_member_def bindE_def)
    from EptInfo_ctor_malformed [where ops = real_ops and dimension = "dim_plain ''float'' 2"
        and kind = "''float''" and sz = 2,
        THEN conjunct2, THEN conjunct2, THEN conjunct2, THEN conjunct2, THEN conjunct2,
        THEN conjunct2, rule_format, OF h]
    show ?thesis
      by (simp add: recognized_def)
  qed
  have t11: "getType real_ops (dim_plain ''double'' 8) = Inr Type_None"
  proof -
    have h: "isMember (dim_plain ''double'' 8) ''scale'' = Inr False
        \<and> bindE (Json_member (dim_plain ''double'' 8) ''type'') (asString real_ops) = Inr ''double''
        \<and> bindE (Json_member (dim_plain ''double'' 8) ''size'') (asUInt64 real_ops) = Inr 8"
      by (simp add: dim_plain_def isMember_def Json_member_def bindE_def)
    from EptInfo_ctor_malformed [where ops = real_ops and dimension = "dim_plain ''double'' 8"
        and kind = "''double''" and sz = 8,
        THEN conjunct2, THEN conjunct2, THEN conjunct2, THEN conjunct2, THEN conjunct2,
        THEN conjunct2, rule_format, OF h]
    show ?thesis
      by (simp add: recognized_def)
  qed
  from w1 w2 w2' w4 h5 w5 h6 nr w6 t0 t1 t2 t3 t4 t5 t6 t7 t8 t9 t10 t11 show ?thesis
    by (elim conjE, intro conjI) assumption+
qed

text \<open>
  C3 as stated fails: the descriptor \<^verbatim>\<open>{type: "signed", size: 3}\<close> is not a recognised
  pair, yet \<^verbatim>\<open>getType\<close> returns \<^verbatim>\<open>None\<close> for it without raising, and the constructor
  returns an \<^verbatim>\<open>EptInfo\<close> for metadata whose schema holds it.
\<close>

theorem EptInfo_ctor_signed3_counterexample:
  "\<not> recognized ''signed'' 3
   \<and> getType real_ops dim_signed3 = Inr Type_None
   \<and> EptInfo_ctor real_ops info_signed3
       = Inr \<lparr>m_info = info_signed3, m_bounds = BOX3D_ctor 0 0 0 10 10 10, m_points = 100,
              m_span = 128, m_dataType = Binary, m_srs = []\<rparr>
   \<and> schema \<lparr>m_info = info_signed3, m_bounds = BOX3D_ctor 0 0 0 10 10 10, m_points = 100,
              m_span = 128, m_dataType = Binary, m_srs = []\<rparr> = Inr (arrayValue [dim_signed3])"
  by (simp add: recognized_def getType_def dim_signed3_def info_signed3_def EptInfo_ctor_def
      resolve_srs_def toBox3d_def Json_member_def isMember_def bindE_def info_base_def
      real_ops_def schema_def)

text \<open>
  C6 on the code. With \<^verbatim>\<open>wkt\<close> absent, the pair \<^verbatim>\<open>authority\<close>, \<^verbatim>\<open>horizontal\<close> absent and a
  \<^verbatim>\<open>vertical\<close> code \<^verbatim>\<open>5703\<close> present, the constructor sets \<^verbatim>\<open>m_srs\<close> to \<^verbatim>\<open>+5703\<close>, not to the
  empty string: the suffix is appended whether or not the pair was there. The other cases
  are as the resolution order says: a non-empty \<^verbatim>\<open>wkt\<close> is taken as it is, the pair gives
  \<^verbatim>\<open>authority:horizontal\<close> with \<^verbatim>\<open>+vertical\<close> appended when there is a vertical code, and
  nothing at all gives the empty string.
\<close>

theorem EptInfo_ctor_srs_vertical_only:
  "map_sum id m_srs (EptInfo_ctor real_ops (info_srs [(''vertical'', stringValue ''5703'')]))
     = Inr ''+5703''
   \<and> map_sum id m_srs (EptInfo_ctor real_ops
        (info_srs [(''authority'', stringValue ''EPSG''), (''vertical'', stringValue ''5703'')]))
     = Inr ''+5703''
   \<and> map_sum id m_srs (EptInfo_ctor real_ops
        (info_srs [(''wkt'', stringValue []), (''vertical'', stringValue ''5703'')]))
     = Inr ''+5703''
   \<and> map_sum id m_srs (EptInfo_ctor real_ops (info_srs [])) = Inr []
   \<and> map_sum id m_srs (EptInfo_ctor real_ops
        (info_srs [(''authority'', stringValue ''EPSG''), (''horizontal'', stringValue ''26915'')]))
     = Inr ''EPSG:26915''
   \<and> map_sum id m_srs (EptInfo_ctor real_ops
        (info_srs [(''authority'', stringValue ''EPSG''), (''horizontal'', stringValue ''26915''),
                   (''vertical'', stringValue ''5703'')]))
     = Inr ''EPSG:26915+5703''
   \<and> map_sum id m_srs (EptInfo_ctor real_ops
        (info_srs [(''wkt'', stringValue ''PROJCS''), (''authority'', stringValue ''EPSG''),
                   (''horizontal'', stringValue ''26915''), (''vertical'', stringValue ''5703'')]))
     = Inr ''PROJCS''"
  by (simp add: info_srs_def EptInfo_ctor_def resolve_srs_def toBox3d_def Json_member_def
      isMember_def bindE_def info_base_def real_ops_def)

subsection \<open>FixedPointLayout and ShallowPointTable\<close>

lemma contains_iff: "contains idList i = (i \<in> set idList)"
  by (induction idList) auto

lemma update_dims_within:
  assumes "dims_within l"
    and "unat (m_pointSize l) + unat (Detail_size d) < 2 ^ 64"
  shows "dims_within (snd (update l d name))"
proof (cases "\<not> m_finalized l \<and> \<not> contains (m_used l) (d_id d)")
  case False
  with assms(1) show ?thesis
    by (auto simp add: update_def)
next
  case True
  have sz: "unat (m_pointSize l + Detail_size d) = unat (m_pointSize l) + unat (Detail_size d)"
    using assms(2) by (simp add: unat_word_ariths)
  have old: "\<forall>i \<in> set (m_used l).
      unat (d_offset (m_detail l i)) + unat (Detail_size (m_detail l i)) \<le> unat (m_pointSize l)"
    using assms(1) by (simp add: dims_within_def list_all_iff)
  show ?thesis
    using True old sz
    by (auto simp add: update_def dims_within_def list_all_iff Let_def Detail_size_def
        contains_iff)
qed


lemma layout_XYI_eq:
  "layout_XYI =
     \<lparr>m_detail = (\<lambda>i. \<lparr>d_id = 0, d_type = Type_None, d_offset = 0\<rparr>)
        (1 := \<lparr>d_id = 1, d_type = Type_Double, d_offset = 0\<rparr>,
         2 := \<lparr>d_id = 2, d_type = Type_Double, d_offset = 8\<rparr>,
         4 := \<lparr>d_id = 4, d_type = Type_Unsigned32, d_offset = 16\<rparr>),
      m_used = [1, 2, 4],
      m_propIds = Map.empty,
      m_pointSize = 20,
      m_finalized = False\<rparr>"
  by (simp add: layout_XYI_def update_def PointLayout_empty_def dim_X_def dim_Y_def
      dim_Intensity_def Detail_size_def Let_def)


text \<open>
  C2, as the code has it. \<^verbatim>\<open>numPoints\<close> is the unsigned division of the byte length by the
  record size, for every length: with a record size \<open>R > 0\<close> and a length \<open>L\<close> it returns
  the largest \<open>n\<close> with \<open>n * R \<le> L\<close> and never fails; a length that is not a multiple of
  \<open>R\<close> is not detected, the bytes after the last whole record are left out of the count.
\<close>

theorem numPoints_div:
  "PointLayout_pointSize (layout t) \<noteq> 0 \<Longrightarrow>
     numPoints t = Inr (m_size t div PointLayout_pointSize (layout t))
     \<and> unat (m_size t div PointLayout_pointSize (layout t))
         = unat (m_size t) div unat (PointLayout_pointSize (layout t))
     \<and> unat (m_size t div PointLayout_pointSize (layout t))
           * unat (PointLayout_pointSize (layout t)) \<le> unat (m_size t)
     \<and> unat (m_size t)
         < (unat (m_size t div PointLayout_pointSize (layout t)) + 1)
             * unat (PointLayout_pointSize (layout t))"
proof -
  assume nz: "PointLayout_pointSize (layout t) \<noteq> 0"
  then have pos: "0 < unat (PointLayout_pointSize (layout t))"
    by (simp add: unat_gt_0)
  have d: "unat (m_size t div PointLayout_pointSize (layout t))
         = unat (m_size t) div unat (PointLayout_pointSize (layout t))"
    by (simp add: unat_div)
  have up: "unat (m_size t)
      < (unat (m_size t) div unat (PointLayout_pointSize (layout t)) + 1)
          * unat (PointLayout_pointSize (layout t))"
    using pos dividend_less_div_times [of "unat (PointLayout_pointSize (layout t))" "unat (m_size t)"]
    by (simp add: algebra_simps)
  show ?thesis
    using nz d up by (simp add: numPoints_def)
qed

theorem numPoints_div_witness:
  "PointLayout_pointSize (layout (ShallowPointTable_ctor layout_XYI (replicate 20 0) 20)) \<noteq> 0
   \<and> numPoints (ShallowPointTable_ctor layout_XYI (replicate 20 0) 20) = Inr 1
   \<and> numPoints (ShallowPointTable_ctor layout_XYI (replicate 21 0) 21) = Inr 1
   \<and> numPoints (ShallowPointTable_ctor layout_XYI (replicate 40 0) 40) = Inr 2"
  using numPoints_div [of "ShallowPointTable_ctor layout_XYI (replicate 20 0) 20"]
    numPoints_div [of "ShallowPointTable_ctor layout_XYI (replicate 21 0) 21"]
    numPoints_div [of "ShallowPointTable_ctor layout_XYI (replicate 40 0) 40"]
  by (simp add: ShallowPointTable_ctor_def PointLayout_pointSize_def layout_XYI_eq)

text \<open>
  C2 as stated fails: with the record size 20, a buffer of 21 bytes does not make
  \<^verbatim>\<open>numPoints\<close> fail; it returns 1.
\<close>

theorem numPoints_no_failure_counterexample:
  "PointLayout_pointSize layout_XYI = 20
   \<and> numPoints (ShallowPointTable_ctor layout_XYI (replicate 21 0) 21) = Inr 1
   \<and> \<not> isl (numPoints (ShallowPointTable_ctor layout_XYI (replicate 21 0) 21))"
  by (simp add: numPoints_def ShallowPointTable_ctor_def PointLayout_pointSize_def layout_XYI_eq)

lemma splice_length:
  "pos + n \<le> length xs \<Longrightarrow> n \<le> length v \<Longrightarrow>
     length (take pos xs @ take n v @ drop (pos + n) xs) = length xs"
  by simp

lemma splice_read:
  "pos + n \<le> length xs \<Longrightarrow> n \<le> length v \<Longrightarrow>
     take n (drop pos (take pos xs @ take n v @ drop (pos + n) xs)) = take n v"
  by simp

lemma nth_append3_right:
  assumes "length a = p" and "length b = n" and "p + n \<le> j"
  shows "(a @ b @ c) ! j = c ! (j - p - n)"
proof -
  have "\<not> j < length a" and "\<not> j - length a < length b"
    using assms by arith+
  then show ?thesis
    using assms(1,2) by (simp add: nth_append)
qed

lemma splice_other:
  assumes "pos + n \<le> length xs" and "n \<le> length v" and "j < length xs"
    and "j < pos \<or> pos + n \<le> j"
  shows "(take pos xs @ take n v @ drop (pos + n) xs) ! j = xs ! j"
proof (cases "j < pos")
  case True
  with assms(1) show ?thesis
    by (simp add: nth_append)
next
  case False
  with assms(4) have ge: "pos + n \<le> j"
    by simp
  have la: "length (take pos xs) = pos" and lb: "length (take n v) = n"
    using assms(1,2) by simp_all
  have "(take pos xs @ take n v @ drop (pos + n) xs) ! j
      = drop (pos + n) xs ! (j - pos - n)"
    by (rule nth_append3_right [OF la lb ge])
  also have "\<dots> = xs ! j"
    using ge assms(1,3) by simp
  finally show ?thesis .
qed

text \<open>
  C9. Let the buffer of a table hold at least \<open>idx + 1\<close> whole records (\<^verbatim>\<open>m_size\<close> bytes,
  all of them in the memory \<^verbatim>\<open>m_data\<close> points to), let \<open>i\<close> be a dimension of its layout
  (a registered id, the dimensions of the layout lying within its record), and let
  \<open>val\<close> hold at least the size \<open>n\<close> of the dimension. Then \<^verbatim>\<open>setFieldInternal\<close> succeeds
  and replaces exactly the \<open>n\<close> bytes at offset \<open>idx * pointSize + offset\<close> of the buffer by
  the first \<open>n\<close> bytes of \<open>val\<close>: the buffer keeps its length and every other byte, layout
  and size are as before, and \<^verbatim>\<open>getFieldInternal\<close> for the same dimension and point then
  returns exactly the \<open>n\<close> bytes written. Adding a point, in contrast, always throws.
\<close>

theorem setField_getField:
  assumes records: "(unat idx + 1) * unat (PointLayout_pointSize (layout t)) \<le> unat (m_size t)"
    and buffer: "unat (m_size t) \<le> length (m_data t)"
    and within: "dims_within (layout t)"
    and used: "contains (m_used (layout t)) i"
    and source: "unat (Detail_size (PointLayout_dimDetail (layout t) i)) \<le> length val"
  shows "(let d = PointLayout_dimDetail (layout t) i;
              n = unat (Detail_size d);
              pos = unat idx * unat (PointLayout_pointSize (layout t)) + unat (d_offset d)
          in setFieldInternal t i idx val
               = Inr (t\<lparr>m_data := take pos (m_data t) @ take n val @ drop (pos + n) (m_data t)\<rparr>)
             \<and> (case setFieldInternal t i idx val of
                   Inl e \<Rightarrow> False
                 | Inr t' \<Rightarrow>
                     getFieldInternal t' i idx = Inr (take n val)
                     \<and> length (m_data t') = length (m_data t)
                     \<and> (\<forall>j < length (m_data t).
                           j < pos \<or> pos + n \<le> j \<longrightarrow> m_data t' ! j = m_data t ! j)
                     \<and> layout t' = layout t \<and> m_size t' = m_size t))
         \<and> addPoint t = Inl (EptError CannotAddPoints)"
proof -
  define d where "d = PointLayout_dimDetail (layout t) i"
  define n where "n = unat (Detail_size d)"
  define ps where "ps = unat (PointLayout_pointSize (layout t))"
  define pos where "pos = unat idx * ps + unat (d_offset d)"
  have "i \<in> set (m_used (layout t))"
    using used by (simp add: contains_iff)
  with within have fit: "unat (d_offset d) + n \<le> ps"
    by (simp add: dims_within_def list_all_iff d_def n_def ps_def PointLayout_dimDetail_def
        PointLayout_pointSize_def)
  have "unat idx * ps + ps \<le> unat (m_size t)"
    using records by (simp add: ps_def)
  moreover have "unat (m_size t) < 2 ^ 64"
    using unsigned_less [of "m_size t"] by simp
  ultimately have small: "unat idx * ps < 2 ^ 64" and whole: "unat idx * ps + ps \<le> length (m_data t)"
    using buffer by simp_all
  have gp: "getPoint t idx = unat idx * ps"
    using small by (simp add: getPoint_def ps_def unat_word_ariths)
  have gd: "getDimension t d idx = pos"
    by (simp add: getDimension_def gp pos_def)
  have gd': "getDimension (t\<lparr>m_data := xs\<rparr>) d idx = pos" for xs
    using gd by (simp add: getDimension_def getPoint_def)
  have room: "pos + n \<le> length (m_data t)"
    using fit whole by (simp add: pos_def)
  have src: "n \<le> length val"
    using source by (simp add: n_def d_def)
  let ?t' = "t\<lparr>m_data := take pos (m_data t) @ take n val @ drop (pos + n) (m_data t)\<rparr>"
  have set_eq: "setFieldInternal t i idx val = Inr ?t'"
    using room src gd
    by (simp add: setFieldInternal_def Let_def d_def [symmetric] n_def [symmetric])
  have len: "length (m_data ?t') = length (m_data t)"
    using splice_length [OF room src] by simp
  have get_eq: "getFieldInternal ?t' i idx = Inr (take n val)"
    using room src gd' splice_read [OF room src] len
    by (simp add: getFieldInternal_def Let_def d_def [symmetric] n_def [symmetric])
  have other: "\<forall>j < length (m_data t).
      j < pos \<or> pos + n \<le> j \<longrightarrow> m_data ?t' ! j = m_data t ! j"
    using splice_other [OF room src] by simp
  show ?thesis
    unfolding Let_def d_def [symmetric] n_def [symmetric] ps_def [symmetric] pos_def [symmetric]
    using set_eq get_eq len other
    by (simp add: addPoint_def)
qed

theorem setField_getField_witness:
  "(unat (1 :: uint64_t) + 1)
       * unat (PointLayout_pointSize (layout (ShallowPointTable_ctor layout_XYI (replicate 40 0) 40)))
     \<le> unat (m_size (ShallowPointTable_ctor layout_XYI (replicate 40 0) 40))
   \<and> unat (m_size (ShallowPointTable_ctor layout_XYI (replicate 40 0) 40))
     \<le> length (m_data (ShallowPointTable_ctor layout_XYI (replicate 40 0) 40))
   \<and> dims_within layout_XYI
   \<and> contains (m_used layout_XYI) 4
   \<and> unat (Detail_size (PointLayout_dimDetail layout_XYI 4)) \<le> length [1, 2, 3, 4 :: 8 word]
   \<and> setFieldInternal (ShallowPointTable_ctor layout_XYI (replicate 40 0) 40) 4 1 [1, 2, 3, 4]
       = Inr (ShallowPointTable_ctor layout_XYI (replicate 36 0 @ [1, 2, 3, 4]) 40)
   \<and> getFieldInternal (ShallowPointTable_ctor layout_XYI (replicate 36 0 @ [1, 2, 3, 4]) 40) 4 1
       = Inr [1, 2, 3, 4]"
proof -
  let ?t = "ShallowPointTable_ctor layout_XYI (replicate 40 0) 40"
  have h1: "(unat (1 :: uint64_t) + 1) * unat (PointLayout_pointSize (layout ?t))
      \<le> unat (m_size ?t)"
    by (simp add: ShallowPointTable_ctor_def PointLayout_pointSize_def layout_XYI_eq)
  have h2: "unat (m_size ?t) \<le> length (m_data ?t)"
    by (simp add: ShallowPointTable_ctor_def)
  have h3: "dims_within (layout ?t)"
    by (simp add: ShallowPointTable_ctor_def dims_within_def layout_XYI_eq Detail_size_def)
  have h4: "contains (m_used (layout ?t)) 4"
    by (simp add: ShallowPointTable_ctor_def layout_XYI_eq)
  have h5: "unat (Detail_size (PointLayout_dimDetail (layout ?t) 4))
      \<le> length [1, 2, 3, 4 :: 8 word]"
    by (simp add: ShallowPointTable_ctor_def layout_XYI_eq Detail_size_def
        PointLayout_dimDetail_def)
  have l: "layout ?t = layout_XYI"
    by (simp add: ShallowPointTable_ctor_def)
  have sz: "unat (Detail_size (PointLayout_dimDetail layout_XYI 4)) = 4"
    "unat (d_offset (PointLayout_dimDetail layout_XYI 4)) = 16"
    "unat (PointLayout_pointSize layout_XYI) = 20"
    by (simp_all add: layout_XYI_eq Detail_size_def PointLayout_dimDetail_def
        PointLayout_pointSize_def)
  have buf: "take 36 (replicate 40 (0 :: 8 word)) @ take 4 [1, 2, 3, 4] @ drop (36 + 4) (replicate 40 0)
      = replicate 36 0 @ [1, 2, 3, 4]"
    by simp
  note inst = setField_getField [OF h1 h2 h3 h4 h5, unfolded l sz Let_def]
  have a: "setFieldInternal ?t 4 1 [1, 2, 3, 4]
      = Inr (ShallowPointTable_ctor layout_XYI (replicate 36 0 @ [1, 2, 3, 4]) 40)"
    using inst buf by (simp add: ShallowPointTable_ctor_def)
  have b: "getFieldInternal (ShallowPointTable_ctor layout_XYI (replicate 36 0 @ [1, 2, 3, 4]) 40) 4 1
      = Inr [1, 2, 3, 4]"
  proof -
    have "getFieldInternal t' 4 1 = Inr (take 4 [1, 2, 3, 4])"
      if "setFieldInternal ?t 4 1 [1, 2, 3, 4] = Inr t'" for t'
      using inst that by clarsimp
    from this [OF a] show ?thesis by simp
  qed
  show ?thesis
    using a b h1 h2 h3 h4 h5 unfolding l by simp
qed


subsection \<open>Pool\<close>

text \<open>
  C10. For every requested worker count \<open>n\<close> and queue capacity \<open>q\<close>, zero included, the
  constructed pool has \<open>max n 1\<close> worker threads and a queue capacity of \<open>max q 1\<close>; neither
  is zero, the pool is running with that many threads started, and \<^verbatim>\<open>size()\<close> and
  \<^verbatim>\<open>numThreads()\<close> report the clamped worker count.
\<close>

theorem Pool_ctor_clamps:
  "(let p = (Pool_ctor n q v :: 'task Pool) in
      m_numThreads p = max n 1 \<and> m_queueSize p = max q 1
      \<and> m_numThreads p \<noteq> 0 \<and> m_queueSize p \<noteq> 0
      \<and> m_running p \<and> m_threads p = unat (max n 1)
      \<and> Pool_size p = max n 1 \<and> Pool_numThreads p = max n 1)"
proof -
  have nz: "max w 1 \<noteq> 0" for w :: size_t
    by (auto simp add: max_def)
  show ?thesis
    unfolding Pool_ctor_def Pool_go_def Pool_size_def Pool_numThreads_def Let_def
    using nz [of n] nz [of q] by simp
qed

theorem Pool_ctor_clamps_witness:
  "m_numThreads (Pool_ctor 0 0 True :: unit Pool) = 1
   \<and> m_queueSize (Pool_ctor 0 0 True :: unit Pool) = 1
   \<and> m_threads (Pool_ctor 0 0 True :: unit Pool) = 1
   \<and> Pool_size (Pool_ctor 0 0 True :: unit Pool) = 1
   \<and> Pool_size (Pool_ctor 4 0 True :: unit Pool) = 4"
  using Pool_ctor_clamps [of 0 0 True, where ?'task = unit]
    Pool_ctor_clamps [of 4 0 True, where ?'task = unit]
  by (simp add: Let_def)

text \<open>
  C8. In a stopped pool (\<^verbatim>\<open>m_running\<close> is false, as after \<^verbatim>\<open>join()\<close> and until a \<^verbatim>\<open>go()\<close>
  completes), \<^verbatim>\<open>add\<close> throws the \<^verbatim>\<open>ept_error\<close> of a stopped pool and the whole state,
  the pending queue, the outstanding counter and the error list included, is as before
  the call. In particular this holds for the pool that any \<^verbatim>\<open>join()\<close> leaves.
\<close>

theorem Pool_add_stopped:
  "(\<not> m_running p \<longrightarrow>
      Pool_add p task = (Thrown (EptError StoppedPool), p)
      \<and> m_tasks (snd (Pool_add p task)) = m_tasks p
      \<and> m_outstanding (snd (Pool_add p task)) = m_outstanding p
      \<and> m_errors (snd (Pool_add p task)) = m_errors p)
   \<and> Pool_add (Pool_join errs q) task = (Thrown (EptError StoppedPool), Pool_join errs q)"
  by (simp add: Pool_add_def Pool_join_def)

theorem Pool_add_stopped_witness:
  "\<not> m_running (Pool_join [] (Pool_ctor 2 1 True :: nat Pool))
   \<and> Pool_add (Pool_join [] (Pool_ctor 2 1 True)) (7::nat)
       = (Thrown (EptError StoppedPool), Pool_join [] (Pool_ctor 2 1 True))
   \<and> fst (Pool_add (Pool_ctor 2 1 True) (7::nat)) = Enqueued"
  using Pool_add_stopped [of "Pool_join [] (Pool_ctor 2 1 True :: nat Pool)" "7::nat" "[]"
      "Pool_ctor 2 1 True"]
  by (simp add: Pool_add_def Pool_join_def Pool_ctor_def Pool_go_def)

end
